theory Spec2Isabelle
  imports Complex_Main
begin

section \<open>The TileMapService imagery provider of Cesium\<close>

text \<open>
  A shallow embedding of \<^verbatim>\<open>Source/Scene/TileMapServiceImageryProvider.js\<close>: the
  constructor's copy of the caller's options, the two callbacks of the metadata request
  (\<^verbatim>\<open>metadataSuccess\<close>, \<^verbatim>\<open>metadataFailure\<close>) and \<^verbatim>\<open>buildImageUrl\<close>.

  JavaScript values are modelled as follows.
  \<^item> \<^verbatim>\<open>undefined\<close> is \<open>None\<close> of an option type; a value the caller passes has the type its
    JSDoc gives it.
  \<^item> A Number is \<open>NaN\<close> or \<open>Num r\<close> with \<open>r\<close> a real: comparisons with \<open>NaN\<close> are false and
    arithmetic on \<open>NaN\<close> is \<open>NaN\<close>, as in IEEE 754; rounding and the infinities are not
    modelled.
  \<^item> The numbers of a tile address (column, row, level, rows at a level) are integers;
    doubles hold them exactly, and their \<^verbatim>\<open>ToString\<close> is their decimal form (as it is for
    every integer of magnitude below \<open>10 ^ 21\<close>; beyond that JavaScript writes an
    exponent, which \<open>numberToString\<close> does not).
  \<^item> An exception is the value \<open>Throw e s\<close>, with \<open>s\<close> the provider's fields when it was
    thrown.
  Modules of Cesium that the file only calls are parameters: the record \<open>env\<close> holds the
  ones the constructor's closure reaches (\<^verbatim>\<open>parseFloat\<close>, \<^verbatim>\<open>Cartographic.fromDegrees\<close>,
  \<^verbatim>\<open>joinUrls\<close>, the two tiling scheme constructors), and a tiling scheme is the record of
  the members this file reads.  Fields of the provider that no statement modelled here
  reads again (\<^verbatim>\<open>_tileDiscardPolicy\<close>, \<^verbatim>\<open>_credit\<close>) are left out, and so is the check
  of debug builds that \<^verbatim>\<open>options.url\<close> is defined: the URL is a string. The request for
  the document is outside the file; the model starts from what it came back with.
\<close>

subsection \<open>Numbers\<close>

datatype number = NaN | Num real

fun lt :: "number \<Rightarrow> number \<Rightarrow> bool" where
  "lt (Num a) (Num b) = (a < b)"
| "lt _ _ = False"

definition gt :: "number \<Rightarrow> number \<Rightarrow> bool" where
  "gt a b = lt b a"

fun le :: "number \<Rightarrow> number \<Rightarrow> bool" where
  "le (Num a) (Num b) = (a \<le> b)"
| "le _ _ = False"

fun sub :: "number \<Rightarrow> number \<Rightarrow> number" where
  "sub (Num a) (Num b) = Num (a - b)"
| "sub _ _ = NaN"

fun add :: "number \<Rightarrow> number \<Rightarrow> number" where
  "add (Num a) (Num b) = Num (a + b)"
| "add _ _ = NaN"

fun mul :: "number \<Rightarrow> number \<Rightarrow> number" where
  "mul (Num a) (Num b) = Num (a * b)"
| "mul _ _ = NaN"

fun Math_abs :: "number \<Rightarrow> number" where
  "Math_abs (Num a) = Num \<bar>a\<bar>"
| "Math_abs NaN = NaN"

subsection \<open>Strings: ToString of an integer, the regular expressions, parseInt\<close>

fun natToString :: "nat \<Rightarrow> string" where
  "natToString n =
     (if n < 10 then [''0123456789'' ! n]
      else natToString (n div 10) @ [''0123456789'' ! (n mod 10)])"

declare natToString.simps [simp del]

definition numberToString :: "int \<Rightarrow> string" where
  "numberToString i = (if i < 0 then CHR ''-'' # natToString (nat (- i)) else natToString (nat i))"

text \<open>
  \<^verbatim>\<open>/name/i.test(s)\<close> for a pattern of lower-case ASCII letters: \<open>s\<close> has a substring that
  is the pattern up to the case of ASCII letters.
\<close>

definition toLowerCase :: "char \<Rightarrow> char" where
  "toLowerCase c =
     (case map_of (zip ''ABCDEFGHIJKLMNOPQRSTUVWXYZ'' ''abcdefghijklmnopqrstuvwxyz'') c of
        Some l \<Rightarrow> l
      | None \<Rightarrow> c)"

fun startsWith :: "string \<Rightarrow> string \<Rightarrow> bool" where
  "startsWith [] s = True"
| "startsWith (p # ps) [] = False"
| "startsWith (p # ps) (c # cs) = (p = c \<and> startsWith ps cs)"

fun containsString :: "string \<Rightarrow> string \<Rightarrow> bool" where
  "containsString p [] = (p = [])"
| "containsString p (c # cs) = (startsWith p (c # cs) \<or> containsString p cs)"

definition test :: "string \<Rightarrow> string \<Rightarrow> bool" where
  "test regex s = containsString regex (map toLowerCase s)"

definition tileFormatRegex :: string where "tileFormatRegex = ''tileformat''"
definition tileSetRegex :: string where "tileSetRegex = ''tileset''"
definition tileSetsRegex :: string where "tileSetsRegex = ''tilesets''"
definition bboxRegex :: string where "bboxRegex = ''boundingbox''"
definition srsRegex :: string where "srsRegex = ''srs''"

text \<open>
  What \<^verbatim>\<open>getAttribute\<close> returns: \<^verbatim>\<open>null\<close> for an attribute the element does not have,
  its string otherwise.
\<close>

datatype attr = Null | Str string

definition attrToString :: "attr \<Rightarrow> string" where
  "attrToString a = (case a of Null \<Rightarrow> ''null'' | Str s \<Rightarrow> s)"

text \<open>
  \<^verbatim>\<open>parseInt(a, 10)\<close>: the argument as a string, leading white space dropped, an optional
  sign, then the longest run of decimal digits; \<open>NaN\<close> when there is no digit. A \<open>char\<close>
  is a code unit below 256, so the white space is the ASCII white space and the no-break
  space; the white space of JavaScript beyond 255 has no \<open>char\<close>.
\<close>

definition isWhiteSpace :: "char \<Rightarrow> bool" where
  "isWhiteSpace c =
     (c \<in> set [CHR '' '', CHR 0x09, CHR 0x0A, CHR 0x0B, CHR 0x0C, CHR 0x0D, CHR 0xA0])"

definition digitValue :: "char \<Rightarrow> nat option" where
  "digitValue c = map_of (zip ''0123456789'' [0, 1, 2, 3, 4, 5, 6, 7, 8, 9]) c"

definition isDigit :: "char \<Rightarrow> bool" where
  "isDigit c = (digitValue c \<noteq> None)"

definition digitsToNat :: "string \<Rightarrow> nat" where
  "digitsToNat ds = foldl (\<lambda>a c. 10 * a + (case digitValue c of Some d \<Rightarrow> d | None \<Rightarrow> 0)) 0 ds"

definition parseDigits :: "string \<Rightarrow> number" where
  "parseDigits s =
     (let ds = takeWhile isDigit s
      in if ds = [] then NaN else Num (of_nat (digitsToNat ds)))"

definition parseInt :: "attr \<Rightarrow> number" where
  "parseInt a =
     (case dropWhile isWhiteSpace (attrToString a) of
        [] \<Rightarrow> NaN
      | c # cs \<Rightarrow>
          if c = CHR ''-'' then mul (Num (- 1)) (parseDigits cs)
          else if c = CHR ''+'' then parseDigits cs
          else parseDigits (c # cs))"

subsection \<open>The data: the document, geometry, tiling schemes, options, the provider\<close>

datatype node =
  Node (nodeName: string) (attributes: "(string \<times> string) list") (childNodes: "node list")
    (textContent: string)

definition getAttribute :: "node \<Rightarrow> string \<Rightarrow> attr" where
  "getAttribute n name = (case map_of (attributes n) name of None \<Rightarrow> Null | Some v \<Rightarrow> Str v)"

record cartesian2 =
  cart_x :: number
  cart_y :: number

record cartographic =
  longitude :: number
  latitude :: number

record rectangle =
  west :: number
  south :: number
  east :: number
  north :: number

text \<open>
  Modelled from the spec: \<^verbatim>\<open>Rectangle.southwest\<close> and \<^verbatim>\<open>Rectangle.northeast\<close> of
  \<^verbatim>\<open>Core/Rectangle.js\<close>, which is not among the sources: the rectangle's southwest and
  northeast corners.
\<close>

definition southwest :: "rectangle \<Rightarrow> cartographic" where
  "southwest r = \<lparr>longitude = west r, latitude = south r\<rparr>"

definition northeast :: "rectangle \<Rightarrow> cartographic" where
  "northeast r = \<lparr>longitude = east r, latitude = north r\<rparr>"

text \<open>
  A tiling scheme, by the members this file reads. \<open>positionToTileXY\<close> may return
  \<^verbatim>\<open>undefined\<close> (Cesium's schemes do for a position outside their rectangle).
\<close>

record tiling_scheme =
  instanceofGeographicTilingScheme :: bool
  scheme_rectangle :: rectangle
  positionToTileXY :: "cartographic \<Rightarrow> number \<Rightarrow> cartesian2 option"
  getNumberOfYTilesAtLevel :: "int \<Rightarrow> int"
  unproject :: "cartesian2 \<Rightarrow> cartographic"

type_synonym ellipsoid = "real \<times> real \<times> real"

record env =
  parseFloat :: "attr \<Rightarrow> number"
  fromDegrees :: "number \<Rightarrow> number \<Rightarrow> cartographic"
  joinUrls :: "string \<Rightarrow> string \<Rightarrow> string"
  GeographicTilingScheme :: "ellipsoid option \<Rightarrow> tiling_scheme"
  WebMercatorTilingScheme :: "ellipsoid option \<Rightarrow> tiling_scheme"

text \<open>
  \<^verbatim>\<open>new GeographicTilingScheme(...)\<close> is an instance of \<^verbatim>\<open>GeographicTilingScheme\<close>, and
  \<^verbatim>\<open>new WebMercatorTilingScheme(...)\<close> is not.
\<close>

definition newGeographicTilingScheme :: "env \<Rightarrow> ellipsoid option \<Rightarrow> tiling_scheme" where
  "newGeographicTilingScheme e ell =
     (GeographicTilingScheme e ell)\<lparr>instanceofGeographicTilingScheme := True\<rparr>"

definition newWebMercatorTilingScheme :: "env \<Rightarrow> ellipsoid option \<Rightarrow> tiling_scheme" where
  "newWebMercatorTilingScheme e ell =
     (WebMercatorTilingScheme e ell)\<lparr>instanceofGeographicTilingScheme := False\<rparr>"

record options =
  opt_url :: string
  opt_fileExtension :: "string option"
  opt_proxy :: "(string \<Rightarrow> string) option"
  opt_minimumLevel :: "number option"
  opt_maximumLevel :: "number option"
  opt_rectangle :: "rectangle option"
  opt_tilingScheme :: "tiling_scheme option"
  opt_ellipsoid :: "ellipsoid option"
  opt_tileWidth :: "number option"
  opt_tileHeight :: "number option"

datatype js_error = TypeError | RuntimeError string

text \<open>The deferred behind \<^verbatim>\<open>readyPromise\<close>: it settles once.\<close>

datatype promise = Pending | Resolved | Rejected js_error

definition resolve :: "promise \<Rightarrow> promise" where
  "resolve p = (if p = Pending then Resolved else p)"

definition reject :: "promise \<Rightarrow> js_error \<Rightarrow> promise" where
  "reject p e = (if p = Pending then Rejected e else p)"

text \<open>
  The provider: field \<open>p_f\<close> is \<^verbatim>\<open>this._f\<close>. \<open>metadataError\<close> is the closure's variable of
  that name: the message of the error last handed to \<^verbatim>\<open>TileProviderError.handleError\<close>
  (which raises \<^verbatim>\<open>_errorEvent\<close> with it; a listener's request to retry is not modelled).
\<close>

record provider =
  p_url :: string
  p_ready :: bool
  p_readyPromise :: promise
  p_proxy :: "(string \<Rightarrow> string) option"
  p_fileExtension :: "attr option"
  p_tileWidth :: "number option"
  p_tileHeight :: "number option"
  p_minimumLevel :: "number option"
  p_maximumLevel :: "number option"
  p_rectangle :: "rectangle option"
  p_tilingScheme :: "tiling_scheme option"
  metadataError :: "string option"

datatype completion = Normal provider | Throw js_error provider

fun state_of :: "completion \<Rightarrow> provider" where
  "state_of (Normal s) = s"
| "state_of (Throw e s) = s"

definition defaultValue :: "'a option \<Rightarrow> 'a \<Rightarrow> 'a" where
  "defaultValue a b = (case a of Some v \<Rightarrow> v | None \<Rightarrow> b)"

subsection \<open>The constructor's field copies (lines 103-118)\<close>

definition initial :: "options \<Rightarrow> provider" where
  "initial opts =
     \<lparr>p_url = opt_url opts,
      p_ready = False,
      p_readyPromise = Pending,
      p_proxy = opt_proxy opts,
      p_fileExtension = map_option Str (opt_fileExtension opts),
      p_tileWidth = opt_tileWidth opts,
      p_tileHeight = opt_tileHeight opts,
      p_minimumLevel = opt_minimumLevel opts,
      p_maximumLevel = opt_maximumLevel opts,
      p_rectangle = opt_rectangle opts,
      p_tilingScheme = opt_tilingScheme opts,
      metadataError = None\<rparr>"

subsection \<open>buildImageUrl (lines 280-290)\<close>

definition extensionToString :: "attr option \<Rightarrow> string" where
  "extensionToString e = (case e of None \<Rightarrow> ''undefined'' | Some a \<Rightarrow> attrToString a)"

text \<open>Lines 284-287: the proxy, when the provider has one, rewrites the URL.\<close>

definition proxyUrl :: "(string \<Rightarrow> string) option \<Rightarrow> string \<Rightarrow> string" where
  "proxyUrl proxy url = (case proxy of None \<Rightarrow> url | Some getURL \<Rightarrow> getURL url)"

text \<open>
  \<open>None\<close> is the TypeError of a provider without a tiling scheme, which a provider that
  is not ready can be.
\<close>

definition buildImageUrl :: "env \<Rightarrow> provider \<Rightarrow> int \<Rightarrow> int \<Rightarrow> int \<Rightarrow> string option" where
  "buildImageUrl e imageryProvider x y level =
     (case p_tilingScheme imageryProvider of
        None \<Rightarrow> None
      | Some scheme \<Rightarrow>
          let yTiles = getNumberOfYTilesAtLevel scheme level;
              url = joinUrls e (p_url imageryProvider)
                      (numberToString level @ ''/'' @ numberToString x @ ''/''
                         @ numberToString (yTiles - y - 1) @ ''.''
                         @ extensionToString (p_fileExtension imageryProvider))
          in Some (proxyUrl (p_proxy imageryProvider) url))"

subsection \<open>metadataSuccess (lines 129-252)\<close>

text \<open>What the loop over the root element's children (lines 141-160) leaves in its variables.\<close>

record scanned =
  format :: "node option"
  bbox :: "node option"
  tilesets :: "node option"
  srs :: "string option"
  tilesetsList :: "node list"

definition unscanned :: scanned where
  "unscanned = \<lparr>format = None, bbox = None, tilesets = None, srs = None, tilesetsList = []\<rparr>"

fun iterateNodes :: "node list \<Rightarrow> scanned \<Rightarrow> scanned" where
  "iterateNodes [] v = v"
| "iterateNodes (n # ns) v =
     iterateNodes ns
       (if test tileFormatRegex (nodeName n) then v\<lparr>format := Some n\<rparr>
        else if test tileSetsRegex (nodeName n) then
          v\<lparr>tilesets := Some n,
            tilesetsList :=
              tilesetsList v @ filter (\<lambda>c. test tileSetRegex (nodeName c)) (childNodes n)\<rparr>
        else if test bboxRegex (nodeName n) then v\<lparr>bbox := Some n\<rparr>
        else if test srsRegex (nodeName n) then v\<lparr>srs := Some (textContent n)\<rparr>
        else v)"

text \<open>Lines 173-176.\<close>

definition flipXY :: "attr \<Rightarrow> bool" where
  "flipXY tilingSchemeName =
     (tilingSchemeName = Str ''geodetic'' \<or> tilingSchemeName = Str ''mercator'')"

text \<open>
  Lines 178-189: the scheme the provider has, or the one the profile names; \<open>None\<close> is
  the branch of the unsupported profile.
\<close>

definition chooseTilingScheme ::
  "env \<Rightarrow> options \<Rightarrow> tiling_scheme option \<Rightarrow> attr \<Rightarrow> tiling_scheme option" where
  "chooseTilingScheme e opts current tilingSchemeName =
     (case current of
        Some scheme \<Rightarrow> Some scheme
      | None \<Rightarrow>
          if tilingSchemeName = Str ''geodetic'' \<or> tilingSchemeName = Str ''global-geodetic''
          then Some (newGeographicTilingScheme e (opt_ellipsoid opts))
          else if tilingSchemeName = Str ''mercator'' \<or> tilingSchemeName = Str ''global-mercator''
          then Some (newWebMercatorTilingScheme e (opt_ellipsoid opts))
          else None)"

definition unsupportedProfileMessage :: "env \<Rightarrow> string \<Rightarrow> attr \<Rightarrow> string" where
  "unsupportedProfileMessage e url tilingSchemeName =
     joinUrls e url ''tilemapresource.xml'' @ ''specifies an unsupported profile attribute, ''
       @ attrToString tilingSchemeName @ ''.''"

text \<open>Lines 200-221: the rectangle of the bounding box element.\<close>

definition cornersToRectangle :: "cartographic \<Rightarrow> cartographic \<Rightarrow> rectangle" where
  "cornersToRectangle sw ne =
     \<lparr>west = longitude sw, south = latitude sw, east = longitude ne, north = latitude ne\<rparr>"

definition rectangleFromBbox :: "env \<Rightarrow> bool \<Rightarrow> tiling_scheme \<Rightarrow> node \<Rightarrow> rectangle" where
  "rectangleFromBbox e flip scheme bb =
     (if flip then
        let swXY = \<lparr>cart_x = parseFloat e (getAttribute bb ''miny''),
                    cart_y = parseFloat e (getAttribute bb ''minx'')\<rparr>;
            neXY = \<lparr>cart_x = parseFloat e (getAttribute bb ''maxy''),
                    cart_y = parseFloat e (getAttribute bb ''maxx'')\<rparr>
        in cornersToRectangle (fromDegrees e (cart_x swXY) (cart_y swXY))
             (fromDegrees e (cart_x neXY) (cart_y neXY))
      else
        let swXY = \<lparr>cart_x = parseFloat e (getAttribute bb ''minx''),
                    cart_y = parseFloat e (getAttribute bb ''miny'')\<rparr>;
            neXY = \<lparr>cart_x = parseFloat e (getAttribute bb ''maxx''),
                    cart_y = parseFloat e (getAttribute bb ''maxy'')\<rparr>
        in if instanceofGeographicTilingScheme scheme
           then cornersToRectangle (fromDegrees e (cart_x swXY) (cart_y swXY))
                  (fromDegrees e (cart_x neXY) (cart_y neXY))
           else cornersToRectangle (unproject scheme swXY) (unproject scheme neXY))"

text \<open>
  Lines 194-222: the rectangle the provider has, or the one of the bounding box; \<open>None\<close>
  when it has none and the loop found no bounding box (\<^verbatim>\<open>bbox.getAttribute\<close> on
  \<^verbatim>\<open>undefined\<close>).
\<close>

definition rectangleHandling ::
  "env \<Rightarrow> bool \<Rightarrow> tiling_scheme \<Rightarrow> rectangle option \<Rightarrow> node option \<Rightarrow> rectangle option" where
  "rectangleHandling e flip scheme current bb =
     (case current of
        Some r \<Rightarrow> Some r
      | None \<Rightarrow> map_option (rectangleFromBbox e flip scheme) bb)"

text \<open>Lines 225-237: each edge against the scheme's rectangle \<open>s\<close>.\<close>

definition clampRectangle :: "rectangle \<Rightarrow> rectangle \<Rightarrow> rectangle" where
  "clampRectangle r s =
     (let r1 = (if lt (west r) (west s) then r\<lparr>west := west s\<rparr> else r);
          r2 = (if gt (east r1) (east s) then r1\<lparr>east := east s\<rparr> else r1);
          r3 = (if lt (south r2) (south s) then r2\<lparr>south := south s\<rparr> else r2)
      in if gt (north r3) (north s) then r3\<lparr>north := north s\<rparr> else r3)"

text \<open>Line 244.\<close>

definition tileCount :: "cartesian2 \<Rightarrow> cartesian2 \<Rightarrow> number" where
  "tileCount swTile neTile =
     mul (add (Math_abs (sub (cart_x neTile) (cart_x swTile))) (Num 1))
         (add (Math_abs (sub (cart_y neTile) (cart_y swTile))) (Num 1))"

text \<open>
  The callback. A property read on \<^verbatim>\<open>undefined\<close> throws a TypeError: \<^verbatim>\<open>xml.childNodes[0]\<close>
  of a document without a child, \<^verbatim>\<open>format\<close>, \<^verbatim>\<open>tilesetsList[0]\<close>, \<^verbatim>\<open>tilesets\<close> and \<^verbatim>\<open>bbox\<close>
  when the loop found none, and the tiles that \<open>positionToTileXY\<close> did not return.
  JavaScript evaluates the arguments of \<^verbatim>\<open>defaultValue\<close> before the call, so the
  attributes are read whether or not the provider has the field already.
\<close>

definition metadataSuccess :: "env \<Rightarrow> options \<Rightarrow> provider \<Rightarrow> node \<Rightarrow> completion" where
  "metadataSuccess e opts that xml =
     (case childNodes xml of
        [] \<Rightarrow> Throw TypeError that
      | rootElement # _ \<Rightarrow>
     let v = iterateNodes (childNodes rootElement) unscanned in
     (case format v of
        None \<Rightarrow> Throw TypeError that
      | Some fmt \<Rightarrow>
     let that1 = that
           \<lparr>p_fileExtension :=
              Some (defaultValue (p_fileExtension that) (getAttribute fmt ''extension'')),
            p_tileWidth :=
              Some (defaultValue (p_tileWidth that) (parseInt (getAttribute fmt ''width''))),
            p_tileHeight :=
              Some (defaultValue (p_tileHeight that) (parseInt (getAttribute fmt ''height'')))\<rparr>
     in
     (case tilesetsList v of
        [] \<Rightarrow> Throw TypeError that1
      | first # _ \<Rightarrow>
     let minimumLevel =
           defaultValue (p_minimumLevel that1) (parseInt (getAttribute first ''order''));
         that2 = that1
           \<lparr>p_minimumLevel := Some minimumLevel,
            p_maximumLevel :=
              Some (defaultValue (p_maximumLevel that1)
                      (parseInt (getAttribute (last (tilesetsList v)) ''order'')))\<rparr>
     in
     (case tilesets v of
        None \<Rightarrow> Throw TypeError that2
      | Some tilesetsNode \<Rightarrow>
     let tilingSchemeName = getAttribute tilesetsNode ''profile'' in
     (case chooseTilingScheme e opts (p_tilingScheme that2) tilingSchemeName of
        None \<Rightarrow>
          let message = unsupportedProfileMessage e (opt_url opts) tilingSchemeName
          in Normal (that2
               \<lparr>metadataError := Some message,
                p_readyPromise := reject (p_readyPromise that2) (RuntimeError message)\<rparr>)
      | Some tilingScheme \<Rightarrow>
     let that3 = that2\<lparr>p_tilingScheme := Some tilingScheme\<rparr> in
     (case rectangleHandling e (flipXY tilingSchemeName) tilingScheme (p_rectangle that3) (bbox v) of
        None \<Rightarrow> Throw TypeError that3
      | Some r \<Rightarrow>
     let rect = clampRectangle r (scheme_rectangle tilingScheme);
         that4 = that3\<lparr>p_rectangle := Some rect\<rparr>
     in
     (case positionToTileXY tilingScheme (southwest rect) minimumLevel of
        None \<Rightarrow> Throw TypeError that4
      | Some swTile \<Rightarrow>
     (case positionToTileXY tilingScheme (northeast rect) minimumLevel of
        None \<Rightarrow> Throw TypeError that4
      | Some neTile \<Rightarrow>
          Normal (that4
            \<lparr>p_minimumLevel :=
               Some (if gt (tileCount swTile neTile) (Num 4) then Num 0 else minimumLevel),
             p_ready := True,
             p_readyPromise := resolve (p_readyPromise that4)\<rparr>)))))))))"

text \<open>The provider after lines 162-166, when it has read the format and the tile sets.\<close>

definition levelsRead :: "provider \<Rightarrow> node \<Rightarrow> node \<Rightarrow> node \<Rightarrow> provider" where
  "levelsRead that fmt first lastSet =
     that
       \<lparr>p_fileExtension :=
          Some (defaultValue (p_fileExtension that) (getAttribute fmt ''extension'')),
        p_tileWidth := Some (defaultValue (p_tileWidth that) (parseInt (getAttribute fmt ''width''))),
        p_tileHeight :=
          Some (defaultValue (p_tileHeight that) (parseInt (getAttribute fmt ''height''))),
        p_minimumLevel :=
          Some (defaultValue (p_minimumLevel that) (parseInt (getAttribute first ''order''))),
        p_maximumLevel :=
          Some (defaultValue (p_maximumLevel that) (parseInt (getAttribute lastSet ''order'')))\<rparr>"

subsection \<open>metadataFailure (lines 254-265) and the request (lines 267-277)\<close>

definition metadataFailure :: "env \<Rightarrow> options \<Rightarrow> provider \<Rightarrow> provider" where
  "metadataFailure e opts that =
     (let tilingScheme =
            (case opt_tilingScheme opts of
               Some scheme \<Rightarrow> scheme
             | None \<Rightarrow> newWebMercatorTilingScheme e (opt_ellipsoid opts))
      in that
           \<lparr>p_fileExtension := Some (Str (defaultValue (opt_fileExtension opts) ''png'')),
            p_tileWidth := Some (defaultValue (opt_tileWidth opts) (Num 256)),
            p_tileHeight := Some (defaultValue (opt_tileHeight opts) (Num 256)),
            p_minimumLevel := Some (defaultValue (opt_minimumLevel opts) (Num 0)),
            p_maximumLevel := opt_maximumLevel opts,
            p_tilingScheme := Some tilingScheme,
            p_rectangle :=
              Some (defaultValue (opt_rectangle opts) (scheme_rectangle tilingScheme)),
            p_ready := True,
            p_readyPromise := resolve (p_readyPromise that)\<rparr>)"

text \<open>
  What the request for \<^verbatim>\<open>tilemapresource.xml\<close> comes back with. \<^verbatim>\<open>when(request, metadataSuccess,
  metadataFailure)\<close> calls one of the two callbacks; an exception of \<^verbatim>\<open>metadataSuccess\<close>
  rejects the promise that \<^verbatim>\<open>when\<close> returns, which nobody reads, and does not call
  \<^verbatim>\<open>metadataFailure\<close>.
\<close>

datatype response = Loaded node | Unavailable

definition requestMetadata :: "env \<Rightarrow> options \<Rightarrow> provider \<Rightarrow> response \<Rightarrow> completion" where
  "requestMetadata e opts that r =
     (case r of
        Loaded xml \<Rightarrow> metadataSuccess e opts that xml
      | Unavailable \<Rightarrow> Normal (metadataFailure e opts that))"

definition TileMapServiceImageryProvider :: "env \<Rightarrow> options \<Rightarrow> response \<Rightarrow> completion" where
  "TileMapServiceImageryProvider e opts r = requestMetadata e opts (initial opts) r"

subsection \<open>A sample environment and sample documents\<close>

text \<open>
  The theorems below hold for every environment. Their instances at concrete inputs use
  this one, kept in rational numbers: its two tiling schemes cover longitudes from -3 to 3
  (where Cesium's cover \<open>-\<pi>\<close> to \<open>\<pi>\<close>) and split level \<open>l\<close> into \<open>columns0 * 2 ^ l\<close> columns
  and \<open>2 ^ l\<close> rows, a position outside the scheme's rectangle has no tile, a degree is
  \<open>1 / 60\<close> of a radian, a projected unit \<open>1 / 100\<close> of a radian, and \<open>parseFloat\<close> is
  \<open>parseInt\<close>, which agrees with it on the integer literals of the sample documents.
\<close>

definition sampleTile ::
  "real \<Rightarrow> real \<Rightarrow> nat \<Rightarrow> cartographic \<Rightarrow> number \<Rightarrow> cartesian2 option" where
  "sampleTile halfWidth halfHeight columns0 position level =
     (case (longitude position, latitude position) of
        (Num lon, Num lat) \<Rightarrow>
          if \<bar>lon\<bar> \<le> halfWidth \<and> \<bar>lat\<bar> \<le> halfHeight then
            (case level of
               NaN \<Rightarrow> Some \<lparr>cart_x = NaN, cart_y = NaN\<rparr>
             | Num l \<Rightarrow>
                 let xTiles = real columns0 * 2 ^ nat \<lfloor>l\<rfloor>;
                     yTiles = 2 ^ nat \<lfloor>l\<rfloor>
                 in Some
                      \<lparr>cart_x =
                         Num (min (real_of_int
                                     \<lfloor>(lon + halfWidth) / (2 * halfWidth) * xTiles\<rfloor>)
                                (xTiles - 1)),
                       cart_y =
                         Num (min (real_of_int
                                     \<lfloor>(halfHeight - lat) / (2 * halfHeight) * yTiles\<rfloor>)
                                (yTiles - 1))\<rparr>)
          else None
      | _ \<Rightarrow> None)"

definition sampleScheme :: "bool \<Rightarrow> real \<Rightarrow> nat \<Rightarrow> tiling_scheme" where
  "sampleScheme geographic halfHeight columns0 =
     \<lparr>instanceofGeographicTilingScheme = geographic,
      scheme_rectangle =
        \<lparr>west = Num (- 3), south = Num (- halfHeight), east = Num 3, north = Num halfHeight\<rparr>,
      positionToTileXY = sampleTile 3 halfHeight columns0,
      getNumberOfYTilesAtLevel = (\<lambda>level. 2 ^ nat level),
      unproject =
        (\<lambda>xy. \<lparr>longitude = mul (cart_x xy) (Num (1 / 100)),
                latitude = mul (cart_y xy) (Num (1 / 100))\<rparr>)\<rparr>"

definition sampleEnv :: env where
  "sampleEnv =
     \<lparr>parseFloat = parseInt,
      fromDegrees =
        (\<lambda>lon lat. \<lparr>longitude = mul lon (Num (1 / 60)), latitude = mul lat (Num (1 / 60))\<rparr>),
      joinUrls = (\<lambda>first second. first @ ''/'' @ second),
      GeographicTilingScheme = (\<lambda>ell. sampleScheme True (3 / 2) 2),
      WebMercatorTilingScheme = (\<lambda>ell. sampleScheme False (7 / 5) 1)\<rparr>"

definition sampleOptions :: options where
  "sampleOptions =
     \<lparr>opt_url = ''tiles'', opt_fileExtension = None, opt_proxy = None, opt_minimumLevel = None,
      opt_maximumLevel = None, opt_rectangle = None, opt_tilingScheme = None,
      opt_ellipsoid = None, opt_tileWidth = None, opt_tileHeight = None\<rparr>"

definition element :: "string \<Rightarrow> (string \<times> string) list \<Rightarrow> node list \<Rightarrow> node" where
  "element name attrs children = Node name attrs children []"

definition sampleBoundingBox :: "string \<Rightarrow> string \<Rightarrow> string \<Rightarrow> string \<Rightarrow> node" where
  "sampleBoundingBox minx miny maxx maxy =
     element ''BoundingBox''
       [(''minx'', minx), (''miny'', miny), (''maxx'', maxx), (''maxy'', maxy)] []"

definition sampleTileFormat :: node where
  "sampleTileFormat =
     element ''TileFormat''
       [(''width'', ''256''), (''height'', ''256''), (''mime-type'', ''image/jpeg''),
        (''extension'', ''jpg'')] []"

definition sampleTileSet :: "string \<Rightarrow> node" where
  "sampleTileSet order = element ''TileSet'' [(''href'', order), (''order'', order)] []"

definition sampleTileSets :: "string \<Rightarrow> string list \<Rightarrow> node" where
  "sampleTileSets profile orders =
     element ''TileSets'' [(''profile'', profile)] (map sampleTileSet orders)"

definition sampleRoot :: "node list \<Rightarrow> node" where
  "sampleRoot children = element ''TileMap'' [(''version'', ''1.0.0'')] children"

definition sampleTileMap :: "node list \<Rightarrow> node" where
  "sampleTileMap children = Node ''#document'' [] [sampleRoot children] []"

definition sampleNodes :: "string \<Rightarrow> node \<Rightarrow> string list \<Rightarrow> node list" where
  "sampleNodes profile bb orders =
     [Node ''Title'' [] [] ''sample'', Node ''SRS'' [] [] ''EPSG:900913'', bb,
      sampleTileFormat, sampleTileSets profile orders]"

definition sampleDocument :: "string \<Rightarrow> node \<Rightarrow> string list \<Rightarrow> node" where
  "sampleDocument profile bb orders = sampleTileMap (sampleNodes profile bb orders)"

definition sampleBox :: node where
  "sampleBox = sampleBoundingBox ''10'' ''20'' ''30'' ''40''"

section \<open>The callback, case by case\<close>

lemma lt_irrefl [simp]: "\<not> lt a a"
  by (cases a) auto

lemma initial_fields [simp]:
  "p_ready (initial opts) = False"
  "p_readyPromise (initial opts) = Pending"
  "metadataError (initial opts) = None"
  "p_tilingScheme (initial opts) = opt_tilingScheme opts"
  "p_rectangle (initial opts) = opt_rectangle opts"
  "p_minimumLevel (initial opts) = opt_minimumLevel opts"
  "p_maximumLevel (initial opts) = opt_maximumLevel opts"
  "p_tileWidth (initial opts) = opt_tileWidth opts"
  "p_tileHeight (initial opts) = opt_tileHeight opts"
  "p_fileExtension (initial opts) = map_option Str (opt_fileExtension opts)"
  "p_url (initial opts) = opt_url opts"
  "p_proxy (initial opts) = opt_proxy opts"
  by (simp_all add: initial_def)

lemma loaded_eq:
  "TileMapServiceImageryProvider e opts (Loaded xml) = metadataSuccess e opts (initial opts) xml"
  by (simp add: TileMapServiceImageryProvider_def requestMetadata_def)

lemma metadataSuccess_no_root:
  "childNodes xml = [] \<Longrightarrow> metadataSuccess e opts that xml = Throw TypeError that"
  by (simp add: metadataSuccess_def)

lemma metadataSuccess_no_format:
  "childNodes xml = rootElement # rest \<Longrightarrow>
   format (iterateNodes (childNodes rootElement) unscanned) = None \<Longrightarrow>
   metadataSuccess e opts that xml = Throw TypeError that"
  by (simp add: metadataSuccess_def)

lemma metadataSuccess_no_tileset:
  "childNodes xml = rootElement # rest \<Longrightarrow>
   format (iterateNodes (childNodes rootElement) unscanned) = Some fmt \<Longrightarrow>
   tilesetsList (iterateNodes (childNodes rootElement) unscanned) = [] \<Longrightarrow>
   p_ready (state_of (metadataSuccess e opts that xml)) = p_ready that \<and>
   p_readyPromise (state_of (metadataSuccess e opts that xml)) = p_readyPromise that \<and>
   metadataError (state_of (metadataSuccess e opts that xml)) = metadataError that \<and>
   (\<exists>s. metadataSuccess e opts that xml = Throw TypeError s)"
  by (simp add: metadataSuccess_def Let_def)

lemma metadataSuccess_no_tilesets:
  "childNodes xml = rootElement # rest \<Longrightarrow>
   format (iterateNodes (childNodes rootElement) unscanned) = Some fmt \<Longrightarrow>
   tilesetsList (iterateNodes (childNodes rootElement) unscanned) = first # others \<Longrightarrow>
   tilesets (iterateNodes (childNodes rootElement) unscanned) = None \<Longrightarrow>
   metadataSuccess e opts that xml =
     Throw TypeError (levelsRead that fmt first (last (first # others)))"
  by (simp add: metadataSuccess_def Let_def levelsRead_def)

lemma metadataSuccess_unsupported:
  "childNodes xml = rootElement # rest \<Longrightarrow>
   format (iterateNodes (childNodes rootElement) unscanned) = Some fmt \<Longrightarrow>
   tilesetsList (iterateNodes (childNodes rootElement) unscanned) = first # others \<Longrightarrow>
   tilesets (iterateNodes (childNodes rootElement) unscanned) = Some tsn \<Longrightarrow>
   chooseTilingScheme e opts (p_tilingScheme that) (getAttribute tsn ''profile'') = None \<Longrightarrow>
   metadataSuccess e opts that xml =
     Normal ((levelsRead that fmt first (last (first # others)))
       \<lparr>metadataError :=
          Some (unsupportedProfileMessage e (opt_url opts) (getAttribute tsn ''profile'')),
        p_readyPromise := reject (p_readyPromise that)
          (RuntimeError
             (unsupportedProfileMessage e (opt_url opts) (getAttribute tsn ''profile'')))\<rparr>)"
  by (simp add: metadataSuccess_def Let_def levelsRead_def)

lemma metadataSuccess_no_rectangle:
  "childNodes xml = rootElement # rest \<Longrightarrow>
   format (iterateNodes (childNodes rootElement) unscanned) = Some fmt \<Longrightarrow>
   tilesetsList (iterateNodes (childNodes rootElement) unscanned) = first # others \<Longrightarrow>
   tilesets (iterateNodes (childNodes rootElement) unscanned) = Some tsn \<Longrightarrow>
   chooseTilingScheme e opts (p_tilingScheme that) (getAttribute tsn ''profile'') = Some scheme \<Longrightarrow>
   rectangleHandling e (flipXY (getAttribute tsn ''profile'')) scheme (p_rectangle that)
     (bbox (iterateNodes (childNodes rootElement) unscanned)) = None \<Longrightarrow>
   metadataSuccess e opts that xml =
     Throw TypeError
       ((levelsRead that fmt first (last (first # others)))\<lparr>p_tilingScheme := Some scheme\<rparr>)"
  by (simp add: metadataSuccess_def Let_def levelsRead_def)

lemma metadataSuccess_tiles:
  "childNodes xml = rootElement # rest \<Longrightarrow>
   format (iterateNodes (childNodes rootElement) unscanned) = Some fmt \<Longrightarrow>
   tilesetsList (iterateNodes (childNodes rootElement) unscanned) = first # others \<Longrightarrow>
   tilesets (iterateNodes (childNodes rootElement) unscanned) = Some tsn \<Longrightarrow>
   chooseTilingScheme e opts (p_tilingScheme that) (getAttribute tsn ''profile'') = Some scheme \<Longrightarrow>
   rectangleHandling e (flipXY (getAttribute tsn ''profile'')) scheme (p_rectangle that)
     (bbox (iterateNodes (childNodes rootElement) unscanned)) = Some r0 \<Longrightarrow>
   rect = clampRectangle r0 (scheme_rectangle scheme) \<Longrightarrow>
   m = defaultValue (p_minimumLevel that) (parseInt (getAttribute first ''order'')) \<Longrightarrow>
   metadataSuccess e opts that xml =
     (case (positionToTileXY scheme (southwest rect) m,
            positionToTileXY scheme (northeast rect) m) of
        (Some swTile, Some neTile) \<Rightarrow>
          Normal ((levelsRead that fmt first (last (first # others)))
            \<lparr>p_tilingScheme := Some scheme,
             p_rectangle := Some rect,
             p_minimumLevel := Some (if gt (tileCount swTile neTile) (Num 4) then Num 0 else m),
             p_ready := True,
             p_readyPromise := resolve (p_readyPromise that)\<rparr>)
      | _ \<Rightarrow>
          Throw TypeError ((levelsRead that fmt first (last (first # others)))
            \<lparr>p_tilingScheme := Some scheme, p_rectangle := Some rect\<rparr>))"
  by (simp add: metadataSuccess_def Let_def levelsRead_def split: option.splits)

text \<open>
  The callback makes a provider ready on one path only: the loop found the format, a tile
  set and the tile sets element, a scheme was chosen, there is a rectangle, and the scheme
  returned a tile for each of its two corners.
\<close>

lemma metadataSuccess_ready:
  assumes ready: "p_ready (state_of (metadataSuccess e opts that xml))"
    and before: "\<not> p_ready that"
  obtains rootElement rest fmt first others tsn scheme r0 swTile neTile where
    "childNodes xml = rootElement # rest"
    "format (iterateNodes (childNodes rootElement) unscanned) = Some fmt"
    "tilesetsList (iterateNodes (childNodes rootElement) unscanned) = first # others"
    "tilesets (iterateNodes (childNodes rootElement) unscanned) = Some tsn"
    "chooseTilingScheme e opts (p_tilingScheme that) (getAttribute tsn ''profile'') = Some scheme"
    "rectangleHandling e (flipXY (getAttribute tsn ''profile'')) scheme (p_rectangle that)
       (bbox (iterateNodes (childNodes rootElement) unscanned)) = Some r0"
    "positionToTileXY scheme (southwest (clampRectangle r0 (scheme_rectangle scheme)))
       (defaultValue (p_minimumLevel that) (parseInt (getAttribute first ''order''))) = Some swTile"
    "positionToTileXY scheme (northeast (clampRectangle r0 (scheme_rectangle scheme)))
       (defaultValue (p_minimumLevel that) (parseInt (getAttribute first ''order''))) = Some neTile"
    "metadataSuccess e opts that xml =
       Normal ((levelsRead that fmt first (last (first # others)))
         \<lparr>p_tilingScheme := Some scheme,
          p_rectangle := Some (clampRectangle r0 (scheme_rectangle scheme)),
          p_minimumLevel :=
            Some (if gt (tileCount swTile neTile) (Num 4) then Num 0
                  else defaultValue (p_minimumLevel that) (parseInt (getAttribute first ''order''))),
          p_ready := True,
          p_readyPromise := resolve (p_readyPromise that)\<rparr>)"
proof -
  let ?res = "metadataSuccess e opts that xml"
  obtain rootElement rest where xml: "childNodes xml = rootElement # rest"
    using ready before metadataSuccess_no_root [of xml e opts that]
    by (cases "childNodes xml") auto
  let ?v = "iterateNodes (childNodes rootElement) unscanned"
  obtain fmt where fmt: "format ?v = Some fmt"
    using ready before metadataSuccess_no_format [OF xml, of e opts that]
    by (cases "format ?v") auto
  obtain first others where sets: "tilesetsList ?v = first # others"
    using ready before metadataSuccess_no_tileset [OF xml fmt, of e opts that]
    by (cases "tilesetsList ?v") auto
  obtain tsn where tsn: "tilesets ?v = Some tsn"
    using ready before metadataSuccess_no_tilesets [OF xml fmt sets, of e opts that]
    by (cases "tilesets ?v") (auto simp: levelsRead_def)
  let ?name = "getAttribute tsn ''profile''"
  obtain scheme where scheme: "chooseTilingScheme e opts (p_tilingScheme that) ?name = Some scheme"
    using ready before metadataSuccess_unsupported [OF xml fmt sets tsn, of e opts that]
    by (cases "chooseTilingScheme e opts (p_tilingScheme that) ?name") (auto simp: levelsRead_def)
  obtain r0 where r0:
    "rectangleHandling e (flipXY ?name) scheme (p_rectangle that) (bbox ?v) = Some r0"
    using ready before metadataSuccess_no_rectangle [OF xml fmt sets tsn scheme]
    by (cases "rectangleHandling e (flipXY ?name) scheme (p_rectangle that) (bbox ?v)")
       (auto simp: levelsRead_def)
  let ?rect = "clampRectangle r0 (scheme_rectangle scheme)"
  let ?m = "defaultValue (p_minimumLevel that) (parseInt (getAttribute first ''order''))"
  note tiles = metadataSuccess_tiles [OF xml fmt sets tsn scheme r0 refl refl]
  obtain swTile where sw: "positionToTileXY scheme (southwest ?rect) ?m = Some swTile"
    using ready before tiles
    by (cases "positionToTileXY scheme (southwest ?rect) ?m") (auto simp: levelsRead_def)
  obtain neTile where ne: "positionToTileXY scheme (northeast ?rect) ?m = Some neTile"
    using ready before tiles sw
    by (cases "positionToTileXY scheme (northeast ?rect) ?m") (auto simp: levelsRead_def)
  show thesis
    using that [OF xml fmt sets tsn scheme r0 sw ne] tiles sw ne by simp
qed

text \<open>
  Once there is a rectangle, the provider holds it, clamped, and the scheme, whether or not
  the scheme then returns the two tiles.
\<close>

lemma metadataSuccess_rectangle:
  assumes "childNodes xml = rootElement # rest"
    and "format (iterateNodes (childNodes rootElement) unscanned) = Some fmt"
    and "tilesetsList (iterateNodes (childNodes rootElement) unscanned) = first # others"
    and "tilesets (iterateNodes (childNodes rootElement) unscanned) = Some tsn"
    and "chooseTilingScheme e opts (p_tilingScheme that) (getAttribute tsn ''profile'') = Some scheme"
    and "rectangleHandling e (flipXY (getAttribute tsn ''profile'')) scheme (p_rectangle that)
           (bbox (iterateNodes (childNodes rootElement) unscanned)) = Some r0"
  shows "p_tilingScheme (state_of (metadataSuccess e opts that xml)) = Some scheme \<and>
         p_rectangle (state_of (metadataSuccess e opts that xml)) =
           Some (clampRectangle r0 (scheme_rectangle scheme))"
  using metadataSuccess_tiles [OF assms refl refl]
  by (simp split: option.splits)

text \<open>
  A provider that has a tiling scheme never takes the branch of the unsupported profile:
  no error is recorded and the promise is left alone or resolved.
\<close>

lemma metadataSuccess_with_scheme:
  assumes scheme: "p_tilingScheme that = Some ts"
  shows "metadataError (state_of (metadataSuccess e opts that xml)) = metadataError that \<and>
         (p_readyPromise (state_of (metadataSuccess e opts that xml)) = p_readyPromise that \<or>
          p_readyPromise (state_of (metadataSuccess e opts that xml)) = resolve (p_readyPromise that))"
proof (cases "childNodes xml")
  case Nil
  then show ?thesis by (simp add: metadataSuccess_no_root)
next
  case (Cons rootElement rest)
  let ?v = "iterateNodes (childNodes rootElement) unscanned"
  show ?thesis
  proof (cases "format ?v")
    case None
    then show ?thesis by (simp add: metadataSuccess_no_format [OF Cons])
  next
    case (Some fmt)
    note fmt = this
    show ?thesis
    proof (cases "tilesetsList ?v")
      case Nil
      then show ?thesis
        using metadataSuccess_no_tileset [OF Cons fmt, of e opts that] by simp
    next
      case (Cons first others)
      note sets = this
      show ?thesis
      proof (cases "tilesets ?v")
        case None
        then show ?thesis
          by (simp add: metadataSuccess_no_tilesets [OF \<open>childNodes xml = rootElement # rest\<close> fmt sets]
              levelsRead_def)
      next
        case (Some tsn)
        note tsn = this
        have chosen: "chooseTilingScheme e opts (p_tilingScheme that) (getAttribute tsn ''profile'')
            = Some ts"
          using scheme by (simp add: chooseTilingScheme_def)
        show ?thesis
        proof (cases "rectangleHandling e (flipXY (getAttribute tsn ''profile'')) ts
            (p_rectangle that) (bbox ?v)")
          case None
          then show ?thesis
            by (simp add: metadataSuccess_no_rectangle
                [OF \<open>childNodes xml = rootElement # rest\<close> fmt sets tsn chosen] levelsRead_def)
        next
          case (Some r0)
          show ?thesis
            using metadataSuccess_tiles
              [OF \<open>childNodes xml = rootElement # rest\<close> fmt sets tsn chosen Some refl refl]
            by (simp add: levelsRead_def split: option.splits)
        qed
      qed
    qed
  qed
qed

text \<open>
  The loop leaves \<open>format\<close> as it was when no node name matches \<^verbatim>\<open>/tileformat/i\<close>.
\<close>

lemma iterateNodes_format_unmatched:
  "\<forall>n \<in> set ns. \<not> test tileFormatRegex (nodeName n) \<Longrightarrow> format (iterateNodes ns v) = format v"
  by (induction ns arbitrary: v) auto

text \<open>
  A ready provider has the caller's URL and proxy, a tiling scheme and a file extension.
\<close>

lemma ready_provider:
  assumes "p = state_of (TileMapServiceImageryProvider e opts r)" and "p_ready p"
  shows "p_url p = opt_url opts \<and> p_proxy p = opt_proxy opts \<and>
         p_tilingScheme p \<noteq> None \<and> p_fileExtension p \<noteq> None"
proof (cases r)
  case (Loaded xml)
  have ready: "p_ready (state_of (metadataSuccess e opts (initial opts) xml))"
    using assms Loaded by (simp add: TileMapServiceImageryProvider_def requestMetadata_def)
  have before: "\<not> p_ready (initial opts)"
    by (simp add: initial_def)
  from ready before obtain fmt first lastSet scheme rect m where
    "metadataSuccess e opts (initial opts) xml =
       Normal ((levelsRead (initial opts) fmt first lastSet)
         \<lparr>p_tilingScheme := Some scheme, p_rectangle := Some rect, p_minimumLevel := Some m,
          p_ready := True, p_readyPromise := resolve (p_readyPromise (initial opts))\<rparr>)"
    by (rule metadataSuccess_ready) blast
  then show ?thesis
    using assms(1) Loaded
    by (simp add: TileMapServiceImageryProvider_def requestMetadata_def levelsRead_def initial_def)
next
  case Unavailable
  then show ?thesis
    using assms(1)
    by (simp add: TileMapServiceImageryProvider_def requestMetadata_def metadataFailure_def
        initial_def Let_def)
qed

subsection \<open>Clamping\<close>

lemma clampRectangle_edges:
  "west (clampRectangle r s) = (if lt (west r) (west s) then west s else west r)"
  "east (clampRectangle r s) = (if gt (east r) (east s) then east s else east r)"
  "south (clampRectangle r s) = (if lt (south r) (south s) then south s else south r)"
  "north (clampRectangle r s) = (if gt (north r) (north s) then north s else north r)"
  by (simp_all add: clampRectangle_def Let_def)

lemma raised_edge:
  "\<not> lt (if lt a b then b else a) b" "\<not> lt (if lt a b then b else a) a"
  by (cases a; cases b; simp)+

lemma lowered_edge:
  "\<not> gt (if gt a b then b else a) b" "\<not> gt (if gt a b then b else a) a"
  by (cases a; cases b; simp add: gt_def)+

lemma clamped_axis:
  assumes "le lo hi" and "le slo hi" and "le lo shi" and "le slo shi"
  shows "le slo (if lt lo slo then slo else lo) \<and>
         le (if lt lo slo then slo else lo) (if gt hi shi then shi else hi) \<and>
         le (if gt hi shi then shi else hi) shi"
  using assms by (cases lo; cases hi; cases slo; cases shi) (auto simp: gt_def)

section \<open>The sample inputs, evaluated\<close>

text \<open>
  The equations that evaluate the model at a concrete input, and the provider that the
  constructor and the callback leave for each sample document.
\<close>

lemmas model_defs = TileMapServiceImageryProvider_def requestMetadata_def metadataSuccess_def
  initial_def Let_def unscanned_def defaultValue_def flipXY_def chooseTilingScheme_def
  rectangleHandling_def rectangleFromBbox_def cornersToRectangle_def clampRectangle_def
  tileCount_def southwest_def northeast_def gt_def resolve_def reject_def
  newGeographicTilingScheme_def newWebMercatorTilingScheme_def unsupportedProfileMessage_def

lemmas regex_defs = test_def tileFormatRegex_def tileSetRegex_def tileSetsRegex_def bboxRegex_def
  srsRegex_def toLowerCase_def

lemmas parse_defs = parseInt_def attrToString_def isWhiteSpace_def parseDigits_def isDigit_def
  digitValue_def digitsToNat_def getAttribute_def

lemmas sample_defs = sampleTile_def sampleScheme_def sampleEnv_def sampleOptions_def element_def
  sampleRoot_def sampleTileMap_def sampleBoundingBox_def sampleTileFormat_def sampleTileSet_def
  sampleTileSets_def sampleNodes_def sampleDocument_def sampleBox_def

lemma sampleDocument_root:
  "childNodes (sampleDocument profile bb orders) = [sampleRoot (sampleNodes profile bb orders)]"
  by (simp add: sampleDocument_def sampleTileMap_def)

lemma sampleDocument_scanned:
  "iterateNodes (childNodes (sampleRoot (sampleNodes profile (sampleBoundingBox a b c d) orders)))
     unscanned =
   \<lparr>format = Some sampleTileFormat,
    bbox = Some (sampleBoundingBox a b c d),
    tilesets = Some (sampleTileSets profile orders),
    srs = Some ''EPSG:900913'',
    tilesetsList = map sampleTileSet orders\<rparr>"
  by (simp add: sampleRoot_def sampleNodes_def element_def sampleBoundingBox_def
      sampleTileFormat_def sampleTileSets_def sampleTileSet_def regex_defs unscanned_def
      filter_map comp_def)

lemma sampleTileSets_profile: "getAttribute (sampleTileSets profile orders) ''profile'' = Str profile"
  by (simp add: sampleTileSets_def element_def getAttribute_def)

lemma sample_mercator:
  "TileMapServiceImageryProvider sampleEnv sampleOptions
     (Loaded (sampleDocument ''mercator'' sampleBox [''2'', ''3'', ''4''])) =
   Normal
     \<lparr>p_url = ''tiles'', p_ready = True, p_readyPromise = Resolved, p_proxy = None,
      p_fileExtension = Some (Str ''jpg''),
      p_tileWidth = Some (Num 256), p_tileHeight = Some (Num 256),
      p_minimumLevel = Some (Num 2), p_maximumLevel = Some (Num 4),
      p_rectangle =
        Some \<lparr>west = Num (1 / 3), south = Num (1 / 6), east = Num (2 / 3), north = Num (1 / 2)\<rparr>,
      p_tilingScheme = Some (sampleScheme False (7 / 5) 1),
      metadataError = None\<rparr>"
  by (simp add: model_defs regex_defs parse_defs sample_defs)

lemma sample_global_mercator:
  "TileMapServiceImageryProvider sampleEnv sampleOptions
     (Loaded (sampleDocument ''global-mercator'' sampleBox [''0'', ''1'', ''2''])) =
   Normal
     \<lparr>p_url = ''tiles'', p_ready = True, p_readyPromise = Resolved, p_proxy = None,
      p_fileExtension = Some (Str ''jpg''),
      p_tileWidth = Some (Num 256), p_tileHeight = Some (Num 256),
      p_minimumLevel = Some (Num 0), p_maximumLevel = Some (Num 2),
      p_rectangle =
        Some \<lparr>west = Num (1 / 10), south = Num (1 / 5), east = Num (3 / 10), north = Num (2 / 5)\<rparr>,
      p_tilingScheme = Some (sampleScheme False (7 / 5) 1),
      metadataError = None\<rparr>"
  by (simp add: model_defs regex_defs parse_defs sample_defs)

lemma sample_wide:
  "TileMapServiceImageryProvider sampleEnv sampleOptions
     (Loaded (sampleDocument ''mercator'' (sampleBoundingBox ''-1'' ''-100'' ''1'' ''100'')
        [''2'', ''3'', ''4''])) =
   Normal
     \<lparr>p_url = ''tiles'', p_ready = True, p_readyPromise = Resolved, p_proxy = None,
      p_fileExtension = Some (Str ''jpg''),
      p_tileWidth = Some (Num 256), p_tileHeight = Some (Num 256),
      p_minimumLevel = Some (Num 0), p_maximumLevel = Some (Num 4),
      p_rectangle =
        Some \<lparr>west = Num (- (5 / 3)), south = Num (- (1 / 60)), east = Num (5 / 3),
              north = Num (1 / 60)\<rparr>,
      p_tilingScheme = Some (sampleScheme False (7 / 5) 1),
      metadataError = None\<rparr>"
  by (simp add: model_defs regex_defs parse_defs sample_defs)

lemma sample_four:
  "TileMapServiceImageryProvider sampleEnv sampleOptions
     (Loaded (sampleDocument ''mercator'' (sampleBoundingBox ''-1'' ''-1'' ''1'' ''1'')
        [''2'', ''3'', ''4''])) =
   Normal
     \<lparr>p_url = ''tiles'', p_ready = True, p_readyPromise = Resolved, p_proxy = None,
      p_fileExtension = Some (Str ''jpg''),
      p_tileWidth = Some (Num 256), p_tileHeight = Some (Num 256),
      p_minimumLevel = Some (Num 2), p_maximumLevel = Some (Num 4),
      p_rectangle =
        Some \<lparr>west = Num (- (1 / 60)), south = Num (- (1 / 60)), east = Num (1 / 60),
              north = Num (1 / 60)\<rparr>,
      p_tilingScheme = Some (sampleScheme False (7 / 5) 1),
      metadataError = None\<rparr>"
  by (simp add: model_defs regex_defs parse_defs sample_defs)

lemma sample_tiles:
  "positionToTileXY (sampleScheme False (7 / 5) 1)
     \<lparr>longitude = Num (- (5 / 3)), latitude = Num (- (1 / 60))\<rparr> (Num 2) =
     Some \<lparr>cart_x = Num 0, cart_y = Num 2\<rparr>"
  "positionToTileXY (sampleScheme False (7 / 5) 1)
     \<lparr>longitude = Num (5 / 3), latitude = Num (1 / 60)\<rparr> (Num 2) =
     Some \<lparr>cart_x = Num 3, cart_y = Num 1\<rparr>"
  "positionToTileXY (sampleScheme False (7 / 5) 1)
     \<lparr>longitude = Num (- (1 / 60)), latitude = Num (- (1 / 60))\<rparr> (Num 2) =
     Some \<lparr>cart_x = Num 1, cart_y = Num 2\<rparr>"
  "positionToTileXY (sampleScheme False (7 / 5) 1)
     \<lparr>longitude = Num (1 / 60), latitude = Num (1 / 60)\<rparr> (Num 2) =
     Some \<lparr>cart_x = Num 2, cart_y = Num 1\<rparr>"
  by (simp_all add: sampleScheme_def sampleTile_def)

lemma sample_unknown:
  "TileMapServiceImageryProvider sampleEnv sampleOptions
     (Loaded (sampleDocument ''unknown-value'' sampleBox [''0'', ''1'', ''2''])) =
   Normal
     \<lparr>p_url = ''tiles'', p_ready = False,
      p_readyPromise = Rejected (RuntimeError
        ''tiles/tilemapresource.xmlspecifies an unsupported profile attribute, unknown-value.''),
      p_proxy = None,
      p_fileExtension = Some (Str ''jpg''),
      p_tileWidth = Some (Num 256), p_tileHeight = Some (Num 256),
      p_minimumLevel = Some (Num 0), p_maximumLevel = Some (Num 2),
      p_rectangle = None, p_tilingScheme = None,
      metadataError =
        Some ''tiles/tilemapresource.xmlspecifies an unsupported profile attribute, unknown-value.''\<rparr>"
  by (simp add: model_defs regex_defs parse_defs sample_defs)

lemma sample_overridden:
  "TileMapServiceImageryProvider sampleEnv
     (sampleOptions
        \<lparr>opt_fileExtension := Some ''png'', opt_minimumLevel := Some (Num 2),
         opt_maximumLevel := Some (Num 5),
         opt_rectangle :=
           Some \<lparr>west = Num (- 3), south = Num (- (3 / 2)), east = Num 3, north = Num (3 / 2)\<rparr>\<rparr>)
     (Loaded (sampleDocument ''mercator'' sampleBox [''0'', ''1'', ''2''])) =
   Normal
     \<lparr>p_url = ''tiles'', p_ready = True, p_readyPromise = Resolved, p_proxy = None,
      p_fileExtension = Some (Str ''png''),
      p_tileWidth = Some (Num 256), p_tileHeight = Some (Num 256),
      p_minimumLevel = Some (Num 0), p_maximumLevel = Some (Num 5),
      p_rectangle =
        Some \<lparr>west = Num (- 3), south = Num (- (7 / 5)), east = Num 3, north = Num (7 / 5)\<rparr>,
      p_tilingScheme = Some (sampleScheme False (7 / 5) 1),
      metadataError = None\<rparr>"
  by (simp add: model_defs regex_defs parse_defs sample_defs)

lemma sample_antimeridian:
  "TileMapServiceImageryProvider sampleEnv
     (sampleOptions
        \<lparr>opt_rectangle :=
           Some \<lparr>west = Num 2, south = Num (- (1 / 2)), east = Num (- 2), north = Num (1 / 2)\<rparr>\<rparr>)
     (Loaded (sampleDocument ''geodetic'' sampleBox [''0'', ''1'', ''2''])) =
   Normal
     \<lparr>p_url = ''tiles'', p_ready = True, p_readyPromise = Resolved, p_proxy = None,
      p_fileExtension = Some (Str ''jpg''),
      p_tileWidth = Some (Num 256), p_tileHeight = Some (Num 256),
      p_minimumLevel = Some (Num 0), p_maximumLevel = Some (Num 2),
      p_rectangle =
        Some \<lparr>west = Num 2, south = Num (- (1 / 2)), east = Num (- 2), north = Num (1 / 2)\<rparr>,
      p_tilingScheme = Some (sampleScheme True (3 / 2) 2),
      metadataError = None\<rparr>"
  by (simp add: model_defs regex_defs parse_defs sample_defs)

lemma sample_own_scheme:
  "TileMapServiceImageryProvider sampleEnv
     (sampleOptions\<lparr>opt_tilingScheme := Some (sampleScheme True (3 / 2) 2)\<rparr>)
     (Loaded (sampleDocument ''unknown-value'' sampleBox [''0'', ''1'', ''2''])) =
   Normal
     \<lparr>p_url = ''tiles'', p_ready = True, p_readyPromise = Resolved, p_proxy = None,
      p_fileExtension = Some (Str ''jpg''),
      p_tileWidth = Some (Num 256), p_tileHeight = Some (Num 256),
      p_minimumLevel = Some (Num 0), p_maximumLevel = Some (Num 2),
      p_rectangle =
        Some \<lparr>west = Num (1 / 6), south = Num (1 / 3), east = Num (1 / 2), north = Num (2 / 3)\<rparr>,
      p_tilingScheme = Some (sampleScheme True (3 / 2) 2),
      metadataError = None\<rparr>"
  by (simp add: model_defs regex_defs parse_defs sample_defs)

lemma sample_tall:
  "TileMapServiceImageryProvider sampleEnv sampleOptions
     (Loaded (sampleDocument ''mercator'' (sampleBoundingBox ''-89'' ''-100'' ''89'' ''100'')
        [''0'', ''1'', ''2''])) =
   Normal
     \<lparr>p_url = ''tiles'', p_ready = True, p_readyPromise = Resolved, p_proxy = None,
      p_fileExtension = Some (Str ''jpg''),
      p_tileWidth = Some (Num 256), p_tileHeight = Some (Num 256),
      p_minimumLevel = Some (Num 0), p_maximumLevel = Some (Num 2),
      p_rectangle =
        Some \<lparr>west = Num (- (5 / 3)), south = Num (- (7 / 5)), east = Num (5 / 3),
              north = Num (7 / 5)\<rparr>,
      p_tilingScheme = Some (sampleScheme False (7 / 5) 1),
      metadataError = None\<rparr>"
  by (simp add: model_defs regex_defs parse_defs sample_defs)

lemma sampleScheme_rectangle:
  "scheme_rectangle (sampleScheme geographic halfHeight columns0) =
   \<lparr>west = Num (- 3), south = Num (- halfHeight), east = Num 3, north = Num halfHeight\<rparr>"
  by (simp add: sampleScheme_def)

lemma sample_tall_box:
  "rectangleFromBbox sampleEnv True scheme
     (sampleBoundingBox ''-89'' ''-100'' ''89'' ''100'') =
   \<lparr>west = Num (- (5 / 3)), south = Num (- (89 / 60)), east = Num (5 / 3), north = Num (89 / 60)\<rparr>"
  by (simp add: rectangleFromBbox_def cornersToRectangle_def Let_def sampleEnv_def
      sampleBoundingBox_def element_def parse_defs)

lemma sample_without_format:
  "TileMapServiceImageryProvider sampleEnv opts
     (Loaded (sampleTileMap [sampleBox, sampleTileSets ''unknown-value'' [''0'', ''1'']])) =
   Throw TypeError (initial opts)"
  by (simp add: loaded_eq metadataSuccess_def sample_defs regex_defs unscanned_def)

section \<open>The claims\<close>

subsection \<open>C1: the URL of a tile\<close>

text \<open>
  Claim C1. For every ready provider and every tile address (column \<open>x\<close>, row \<open>y\<close>,
  \<open>level\<close>), with \<open>rowsAtLevel\<close> the scheme's number of rows of tiles at the level, the URL
  of the tile is the provider's base URL joined with \<open>level/x/flippedRow.extension\<close>, where
  \<open>flippedRow = rowsAtLevel - y - 1\<close> (the proxy, when there is one, then rewrites it).
  Flipping twice over the same row count gives the row back: the URL of row
  \<open>rowsAtLevel - y - 1\<close> holds \<open>y\<close>. With 4 rows at a level, row 0 maps to 3 and row 3 to 0:
  the instance below.
\<close>

theorem buildImageUrl_path:
  assumes "p = state_of (TileMapServiceImageryProvider e opts r)" and "p_ready p"
  shows "\<exists>scheme ext.
     p_tilingScheme p = Some scheme \<and> p_fileExtension p = Some ext \<and>
     buildImageUrl e p x y level =
       Some (proxyUrl (opt_proxy opts)
         (joinUrls e (opt_url opts)
            (numberToString level @ ''/'' @ numberToString x @ ''/''
               @ numberToString (getNumberOfYTilesAtLevel scheme level - y - 1) @ ''.''
               @ attrToString ext))) \<and>
     buildImageUrl e p x (getNumberOfYTilesAtLevel scheme level - y - 1) level =
       Some (proxyUrl (opt_proxy opts)
         (joinUrls e (opt_url opts)
            (numberToString level @ ''/'' @ numberToString x @ ''/''
               @ numberToString y @ ''.'' @ attrToString ext)))"
proof -
  from ready_provider [OF assms] obtain scheme ext where
    p: "p_url p = opt_url opts" "p_proxy p = opt_proxy opts"
       "p_tilingScheme p = Some scheme" "p_fileExtension p = Some ext"
    by auto
  have flip: "getNumberOfYTilesAtLevel scheme level
      - (getNumberOfYTilesAtLevel scheme level - y - 1) - 1 = y"
    by simp
  show ?thesis
    using p flip by (simp add: buildImageUrl_def extensionToString_def Let_def)
qed

text \<open>
  An instance of C1: the sample WebMercator scheme has 4 rows at level 2; row 0 is stored
  as 3 and row 3 as 0.
\<close>

theorem buildImageUrl_path_witness:
  "p_ready (state_of (TileMapServiceImageryProvider sampleEnv sampleOptions Unavailable)) \<and>
   getNumberOfYTilesAtLevel (sampleScheme False (7 / 5) 1) 2 = 4 \<and>
   buildImageUrl sampleEnv
     (state_of (TileMapServiceImageryProvider sampleEnv sampleOptions Unavailable)) 1 0 2 =
     Some ''tiles/2/1/3.png'' \<and>
   buildImageUrl sampleEnv
     (state_of (TileMapServiceImageryProvider sampleEnv sampleOptions Unavailable)) 1 3 2 =
     Some ''tiles/2/1/0.png''"
proof -
  let ?p = "state_of (TileMapServiceImageryProvider sampleEnv sampleOptions Unavailable)"
  have p: "p_ready ?p" "p_tilingScheme ?p = Some (sampleScheme False (7 / 5) 1)"
      "p_fileExtension ?p = Some (Str ''png'')"
    by (simp_all add: TileMapServiceImageryProvider_def requestMetadata_def metadataFailure_def
        initial_def Let_def sampleOptions_def sampleEnv_def newWebMercatorTilingScheme_def
        sampleScheme_def defaultValue_def)
  have rows: "getNumberOfYTilesAtLevel (sampleScheme False (7 / 5) 1) 2 = 4"
    by (simp add: sampleScheme_def)
  have strings: "numberToString 0 = ''0''" "numberToString 1 = ''1''" "numberToString 2 = ''2''"
      "numberToString 3 = ''3''"
    by (simp_all add: numberToString_def natToString.simps)
  from buildImageUrl_path [OF refl p(1), of 1 0 2] buildImageUrl_path [OF refl p(1), of 1 3 2]
  show ?thesis
    using p rows strings
    by (simp add: proxyUrl_def attrToString_def sampleOptions_def sampleEnv_def)
qed

subsection \<open>C2: the caller's overrides\<close>

text \<open>
  Claim C2 says that every override the caller supplies is used verbatim. Two are not: the
  rectangle is clamped to the scheme's rectangle (lines 225-237) and the minimum level is
  set to 0 when the corner tiles span more than four tiles (lines 242-247), whoever
  supplied them. Here the caller asks for minimum level 2 and for the rectangle from -3/2
  to 3/2 in latitude; the provider is ready with minimum level 0 and latitudes from -7/5 to
  7/5, the sample WebMercator scheme's.
\<close>

theorem override_precedence_counterexample:
  "opt_minimumLevel (sampleOptions
        \<lparr>opt_fileExtension := Some ''png'', opt_minimumLevel := Some (Num 2),
         opt_maximumLevel := Some (Num 5),
         opt_rectangle :=
           Some \<lparr>west = Num (- 3), south = Num (- (3 / 2)), east = Num 3, north = Num (3 / 2)\<rparr>\<rparr>) =
     Some (Num 2) \<and>
   p_ready (state_of (TileMapServiceImageryProvider sampleEnv
     (sampleOptions
        \<lparr>opt_fileExtension := Some ''png'', opt_minimumLevel := Some (Num 2),
         opt_maximumLevel := Some (Num 5),
         opt_rectangle :=
           Some \<lparr>west = Num (- 3), south = Num (- (3 / 2)), east = Num 3, north = Num (3 / 2)\<rparr>\<rparr>)
     (Loaded (sampleDocument ''mercator'' sampleBox [''0'', ''1'', ''2''])))) \<and>
   p_minimumLevel (state_of (TileMapServiceImageryProvider sampleEnv
     (sampleOptions
        \<lparr>opt_fileExtension := Some ''png'', opt_minimumLevel := Some (Num 2),
         opt_maximumLevel := Some (Num 5),
         opt_rectangle :=
           Some \<lparr>west = Num (- 3), south = Num (- (3 / 2)), east = Num 3, north = Num (3 / 2)\<rparr>\<rparr>)
     (Loaded (sampleDocument ''mercator'' sampleBox [''0'', ''1'', ''2''])))) = Some (Num 0) \<and>
   p_rectangle (state_of (TileMapServiceImageryProvider sampleEnv
     (sampleOptions
        \<lparr>opt_fileExtension := Some ''png'', opt_minimumLevel := Some (Num 2),
         opt_maximumLevel := Some (Num 5),
         opt_rectangle :=
           Some \<lparr>west = Num (- 3), south = Num (- (3 / 2)), east = Num 3, north = Num (3 / 2)\<rparr>\<rparr>)
     (Loaded (sampleDocument ''mercator'' sampleBox [''0'', ''1'', ''2''])))) =
     Some \<lparr>west = Num (- 3), south = Num (- (7 / 5)), east = Num 3, north = Num (7 / 5)\<rparr>"
  by (simp add: sample_overridden)

text \<open>
  Claim C2, amended. For every capabilities document, and also when there is none, a
  resolved configuration uses the overrides \<open>fileExtension\<close>, \<open>tileWidth\<close>, \<open>tileHeight\<close>,
  \<open>maximumLevel\<close> and \<open>tilingScheme\<close> verbatim. An override \<open>rectangle\<close> is used verbatim
  when the document is unavailable, and clamped to the tiling scheme's rectangle when
  there is a document. An override \<open>minimumLevel\<close> is used verbatim when the document is
  unavailable; when there is a document it is the level at which the corner tiles of the
  rectangle are looked up, and the resolved minimum level is 0 if they span more than 4
  tiles and the override otherwise.
\<close>

theorem override_precedence:
  assumes p: "p = state_of (TileMapServiceImageryProvider e opts r)"
    and ready: "p_ready p"
  shows "(\<forall>ext. opt_fileExtension opts = Some ext \<longrightarrow> p_fileExtension p = Some (Str ext)) \<and>
     (\<forall>w. opt_tileWidth opts = Some w \<longrightarrow> p_tileWidth p = Some w) \<and>
     (\<forall>h. opt_tileHeight opts = Some h \<longrightarrow> p_tileHeight p = Some h) \<and>
     (\<forall>m. opt_maximumLevel opts = Some m \<longrightarrow> p_maximumLevel p = Some m) \<and>
     (\<forall>ts. opt_tilingScheme opts = Some ts \<longrightarrow> p_tilingScheme p = Some ts) \<and>
     (\<forall>rect. opt_rectangle opts = Some rect \<longrightarrow>
        (\<exists>scheme. p_tilingScheme p = Some scheme \<and>
           p_rectangle p =
             Some (case r of
                     Loaded xml \<Rightarrow> clampRectangle rect (scheme_rectangle scheme)
                   | Unavailable \<Rightarrow> rect))) \<and>
     (\<forall>m. opt_minimumLevel opts = Some m \<longrightarrow>
        (case r of
           Unavailable \<Rightarrow> p_minimumLevel p = Some m
         | Loaded xml \<Rightarrow>
             (\<exists>scheme rect swTile neTile.
                p_tilingScheme p = Some scheme \<and> p_rectangle p = Some rect \<and>
                positionToTileXY scheme (southwest rect) m = Some swTile \<and>
                positionToTileXY scheme (northeast rect) m = Some neTile \<and>
                p_minimumLevel p =
                  Some (if gt (tileCount swTile neTile) (Num 4) then Num 0 else m))))"
proof (cases r)
  case Unavailable
  then show ?thesis
    using p
    by (simp add: TileMapServiceImageryProvider_def requestMetadata_def metadataFailure_def
        initial_def Let_def defaultValue_def)
next
  case (Loaded xml)
  have r: "p_ready (state_of (metadataSuccess e opts (initial opts) xml))"
    using p ready Loaded by (simp add: loaded_eq)
  have b: "\<not> p_ready (initial opts)" by simp
  from r b show ?thesis
  proof (rule metadataSuccess_ready)
    fix rootElement rest fmt first others tsn scheme r0 swTile neTile
    let ?m = "defaultValue (p_minimumLevel (initial opts)) (parseInt (getAttribute first ''order''))"
    assume scheme: "chooseTilingScheme e opts (p_tilingScheme (initial opts))
          (getAttribute tsn ''profile'') = Some scheme"
      and r0: "rectangleHandling e (flipXY (getAttribute tsn ''profile'')) scheme
          (p_rectangle (initial opts)) (bbox (iterateNodes (childNodes rootElement) unscanned))
          = Some r0"
      and sw: "positionToTileXY scheme (southwest (clampRectangle r0 (scheme_rectangle scheme))) ?m
          = Some swTile"
      and ne: "positionToTileXY scheme (northeast (clampRectangle r0 (scheme_rectangle scheme))) ?m
          = Some neTile"
      and res: "metadataSuccess e opts (initial opts) xml =
       Normal ((levelsRead (initial opts) fmt first (last (first # others)))
         \<lparr>p_tilingScheme := Some scheme,
          p_rectangle := Some (clampRectangle r0 (scheme_rectangle scheme)),
          p_minimumLevel := Some (if gt (tileCount swTile neTile) (Num 4) then Num 0 else ?m),
          p_ready := True,
          p_readyPromise := resolve (p_readyPromise (initial opts))\<rparr>)"
    have fields:
      "p_fileExtension p =
         Some (defaultValue (map_option Str (opt_fileExtension opts)) (getAttribute fmt ''extension''))"
      "p_tileWidth p = Some (defaultValue (opt_tileWidth opts) (parseInt (getAttribute fmt ''width'')))"
      "p_tileHeight p = Some (defaultValue (opt_tileHeight opts) (parseInt (getAttribute fmt ''height'')))"
      "p_maximumLevel p =
         Some (defaultValue (opt_maximumLevel opts)
                 (parseInt (getAttribute (last (first # others)) ''order'')))"
      "p_tilingScheme p = Some scheme"
      "p_rectangle p = Some (clampRectangle r0 (scheme_rectangle scheme))"
      "p_minimumLevel p = Some (if gt (tileCount swTile neTile) (Num 4) then Num 0 else ?m)"
      using p Loaded res by (simp_all add: loaded_eq levelsRead_def)
    have scheme_kept: "\<forall>ts. opt_tilingScheme opts = Some ts \<longrightarrow> scheme = ts"
      using scheme by (auto simp: chooseTilingScheme_def)
    have rect_kept: "\<forall>rect. opt_rectangle opts = Some rect \<longrightarrow> r0 = rect"
      using r0 by (auto simp: rectangleHandling_def)
    have level: "\<forall>m. opt_minimumLevel opts = Some m \<longrightarrow> ?m = m"
      by (simp add: defaultValue_def)
    show ?thesis
      using fields scheme_kept rect_kept level sw ne Loaded
      by (auto simp: defaultValue_def)
  qed
qed

text \<open>
  An instance of the amended C2: the overrides \<open>png\<close> and maximum level 5 win over the
  document's \<open>jpg\<close> and its last tile set, and the rectangle is the caller's, clamped.
\<close>

theorem override_precedence_witness:
  "p_fileExtension (state_of (TileMapServiceImageryProvider sampleEnv
     (sampleOptions
        \<lparr>opt_fileExtension := Some ''png'', opt_minimumLevel := Some (Num 2),
         opt_maximumLevel := Some (Num 5),
         opt_rectangle :=
           Some \<lparr>west = Num (- 3), south = Num (- (3 / 2)), east = Num 3, north = Num (3 / 2)\<rparr>\<rparr>)
     (Loaded (sampleDocument ''mercator'' sampleBox [''0'', ''1'', ''2''])))) = Some (Str ''png'') \<and>
   p_maximumLevel (state_of (TileMapServiceImageryProvider sampleEnv
     (sampleOptions
        \<lparr>opt_fileExtension := Some ''png'', opt_minimumLevel := Some (Num 2),
         opt_maximumLevel := Some (Num 5),
         opt_rectangle :=
           Some \<lparr>west = Num (- 3), south = Num (- (3 / 2)), east = Num 3, north = Num (3 / 2)\<rparr>\<rparr>)
     (Loaded (sampleDocument ''mercator'' sampleBox [''0'', ''1'', ''2''])))) = Some (Num 5) \<and>
   getAttribute sampleTileFormat ''extension'' = Str ''jpg'' \<and>
   parseInt (getAttribute (sampleTileSet ''2'') ''order'') = Num 2 \<and>
   clampRectangle
     \<lparr>west = Num (- 3), south = Num (- (3 / 2)), east = Num 3, north = Num (3 / 2)\<rparr>
     (scheme_rectangle (sampleScheme False (7 / 5) 1)) =
     \<lparr>west = Num (- 3), south = Num (- (7 / 5)), east = Num 3, north = Num (7 / 5)\<rparr>"
proof -
  let ?opts = "sampleOptions
        \<lparr>opt_fileExtension := Some ''png'', opt_minimumLevel := Some (Num 2),
         opt_maximumLevel := Some (Num 5),
         opt_rectangle :=
           Some \<lparr>west = Num (- 3), south = Num (- (3 / 2)), east = Num 3, north = Num (3 / 2)\<rparr>\<rparr>"
  let ?r = "Loaded (sampleDocument ''mercator'' sampleBox [''0'', ''1'', ''2''])"
  have ready: "p_ready (state_of (TileMapServiceImageryProvider sampleEnv ?opts ?r))"
    by (simp only: sample_overridden state_of.simps provider.simps)
  have document: "getAttribute sampleTileFormat ''extension'' = Str ''jpg''"
    "parseInt (getAttribute (sampleTileSet ''2'') ''order'') = Num 2"
    by (simp_all add: sampleTileFormat_def sampleTileSet_def element_def parse_defs)
  from override_precedence [OF refl ready]
  show ?thesis
    using document
    by (simp add: sample_overridden sampleScheme_def clampRectangle_def gt_def)
qed

subsection \<open>C3: an unsupported profile\<close>

text \<open>
  Claim C3 says that every document with an unsupported profile, read without a tiling
  scheme from the caller, rejects the ready promise with a message naming the profile.
  The profile is read at line 171, after the format and the tile sets (lines 162-166): a
  document with the profile \<open>unknown-value\<close> but no tileformat node throws a TypeError
  before that, and the promise stays pending with no message.
\<close>

theorem unsupported_profile_counterexample:
  "getAttribute (sampleTileSets ''unknown-value'' [''0'', ''1'']) ''profile'' = Str ''unknown-value'' \<and>
   opt_tilingScheme sampleOptions = None \<and>
   TileMapServiceImageryProvider sampleEnv sampleOptions
     (Loaded (sampleTileMap [sampleBox, sampleTileSets ''unknown-value'' [''0'', ''1'']])) =
     Throw TypeError (initial sampleOptions) \<and>
   p_readyPromise (initial sampleOptions) = Pending \<and>
   metadataError (initial sampleOptions) = None"
  by (simp add: sample_without_format sampleTileSets_profile sampleOptions_def)

text \<open>
  Claim C3, amended. For every capabilities document that has a tileformat node and at
  least one tileset node, and whose tilesets profile attribute is outside \<open>geodetic\<close>,
  \<open>global-geodetic\<close>, \<open>mercator\<close>, \<open>global-mercator\<close> (a missing attribute reads as
  \<open>null\<close>), when the caller did not supply a tiling scheme: the callback returns with the
  provider not ready and without a tiling scheme, the ready promise is rejected with a
  RuntimeError whose message is the URL of \<^verbatim>\<open>tilemapresource.xml\<close> followed by
  \<open>specifies an unsupported profile attribute,\<close> and the profile string, and the
  same message is handed to the error event.
\<close>

theorem unsupported_profile_rejected:
  assumes xml: "childNodes xml = rootElement # rest"
    and fmt: "format (iterateNodes (childNodes rootElement) unscanned) = Some fmt"
    and sets: "tilesetsList (iterateNodes (childNodes rootElement) unscanned) = first # others"
    and tsn: "tilesets (iterateNodes (childNodes rootElement) unscanned) = Some tsn"
    and name: "name = getAttribute tsn ''profile''"
    and unsupported: "name \<notin> {Str ''geodetic'', Str ''global-geodetic'', Str ''mercator'',
                                 Str ''global-mercator''}"
    and no_scheme: "opt_tilingScheme opts = None"
    and p: "p = state_of (TileMapServiceImageryProvider e opts (Loaded xml))"
    and message: "message = joinUrls e (opt_url opts) ''tilemapresource.xml''
                    @ ''specifies an unsupported profile attribute, '' @ attrToString name @ ''.''"
  shows "TileMapServiceImageryProvider e opts (Loaded xml) = Normal p \<and>
         \<not> p_ready p \<and>
         p_readyPromise p = Rejected (RuntimeError message) \<and>
         metadataError p = Some message \<and>
         p_tilingScheme p = None"
proof -
  have none: "chooseTilingScheme e opts (p_tilingScheme (initial opts)) (getAttribute tsn ''profile'')
      = None"
    using unsupported no_scheme name by (simp add: chooseTilingScheme_def)
  show ?thesis
    using metadataSuccess_unsupported [OF xml fmt sets tsn none] p message name no_scheme
    by (simp add: loaded_eq levelsRead_def reject_def unsupportedProfileMessage_def)
qed

text \<open>
  An instance of the amended C3: the sample document with the profile \<open>unknown-value\<close>.
\<close>

theorem unsupported_profile_rejected_witness:
  "TileMapServiceImageryProvider sampleEnv sampleOptions
     (Loaded (sampleDocument ''unknown-value'' sampleBox [''0'', ''1'', ''2''])) =
     Normal (state_of (TileMapServiceImageryProvider sampleEnv sampleOptions
       (Loaded (sampleDocument ''unknown-value'' sampleBox [''0'', ''1'', ''2'']))))  \<and>
   \<not> p_ready (state_of (TileMapServiceImageryProvider sampleEnv sampleOptions
     (Loaded (sampleDocument ''unknown-value'' sampleBox [''0'', ''1'', ''2''])))) \<and>
   p_readyPromise (state_of (TileMapServiceImageryProvider sampleEnv sampleOptions
     (Loaded (sampleDocument ''unknown-value'' sampleBox [''0'', ''1'', ''2''])))) =
     Rejected (RuntimeError
       ''tiles/tilemapresource.xmlspecifies an unsupported profile attribute, unknown-value.'')"
proof -
  let ?v = "iterateNodes (childNodes (sampleRoot (sampleNodes ''unknown-value'' sampleBox
      [''0'', ''1'', ''2'']))) unscanned"
  let ?tsn = "sampleTileSets ''unknown-value'' [''0'', ''1'', ''2'']"
  have scanned: "format ?v = Some sampleTileFormat"
    "tilesetsList ?v = sampleTileSet ''0'' # [sampleTileSet ''1'', sampleTileSet ''2'']"
    "tilesets ?v = Some ?tsn"
    unfolding sampleBox_def by (simp_all add: sampleDocument_scanned)
  have name: "Str ''unknown-value'' = getAttribute ?tsn ''profile''"
    by (simp add: sampleTileSets_profile)
  have unsupported: "Str ''unknown-value'' \<notin>
      {Str ''geodetic'', Str ''global-geodetic'', Str ''mercator'', Str ''global-mercator''}"
    by simp
  have none: "opt_tilingScheme sampleOptions = None"
    by (simp add: sampleOptions_def)
  have message:
    "''tiles/tilemapresource.xmlspecifies an unsupported profile attribute, unknown-value.'' =
     joinUrls sampleEnv (opt_url sampleOptions) ''tilemapresource.xml''
       @ ''specifies an unsupported profile attribute, '' @ attrToString (Str ''unknown-value'') @ ''.''"
    by (simp add: sampleEnv_def sampleOptions_def attrToString_def)
  from unsupported_profile_rejected
    [OF sampleDocument_root scanned name unsupported none refl message]
  show ?thesis by simp
qed

subsection \<open>C4: the document cannot be obtained\<close>

text \<open>
  Claim C4. If the capabilities document cannot be obtained or parsed, resolution does not
  fail, whatever the caller supplied: the provider is ready and its promise resolved, and
  each field is the caller's override, or else file extension \<open>png\<close>, tile width and
  height 256, minimum level 0, maximum level unset, a WebMercator tiling scheme (built
  from the caller's ellipsoid, if any), and the rectangle of the tiling scheme. So with no
  overrides supplied the configuration is exactly those defaults, with the rectangle of
  the WebMercator scheme. The relaxation of the minimum level is not applied on this
  path: the minimum level is the caller's, or 0, whatever tiles the scheme has.
\<close>

theorem metadataFailure_defaults:
  "TileMapServiceImageryProvider e opts Unavailable =
     Normal
       \<lparr>p_url = opt_url opts,
        p_ready = True,
        p_readyPromise = Resolved,
        p_proxy = opt_proxy opts,
        p_fileExtension =
          Some (Str (case opt_fileExtension opts of None \<Rightarrow> ''png'' | Some ext \<Rightarrow> ext)),
        p_tileWidth = Some (case opt_tileWidth opts of None \<Rightarrow> Num 256 | Some w \<Rightarrow> w),
        p_tileHeight = Some (case opt_tileHeight opts of None \<Rightarrow> Num 256 | Some h \<Rightarrow> h),
        p_minimumLevel = Some (case opt_minimumLevel opts of None \<Rightarrow> Num 0 | Some m \<Rightarrow> m),
        p_maximumLevel = opt_maximumLevel opts,
        p_rectangle =
          Some (case opt_rectangle opts of
                  None \<Rightarrow>
                    scheme_rectangle
                      (case opt_tilingScheme opts of
                         None \<Rightarrow> newWebMercatorTilingScheme e (opt_ellipsoid opts)
                       | Some scheme \<Rightarrow> scheme)
                | Some rect \<Rightarrow> rect),
        p_tilingScheme =
          Some (case opt_tilingScheme opts of
                  None \<Rightarrow> newWebMercatorTilingScheme e (opt_ellipsoid opts)
                | Some scheme \<Rightarrow> scheme),
        metadataError = None\<rparr> \<and>
   (opt_fileExtension opts = None \<and> opt_tileWidth opts = None \<and> opt_tileHeight opts = None \<and>
    opt_minimumLevel opts = None \<and> opt_maximumLevel opts = None \<and> opt_rectangle opts = None \<and>
    opt_tilingScheme opts = None \<longrightarrow>
      TileMapServiceImageryProvider e opts Unavailable =
        Normal
          \<lparr>p_url = opt_url opts,
           p_ready = True,
           p_readyPromise = Resolved,
           p_proxy = opt_proxy opts,
           p_fileExtension = Some (Str ''png''),
           p_tileWidth = Some (Num 256),
           p_tileHeight = Some (Num 256),
           p_minimumLevel = Some (Num 0),
           p_maximumLevel = None,
           p_rectangle =
             Some (scheme_rectangle (newWebMercatorTilingScheme e (opt_ellipsoid opts))),
           p_tilingScheme = Some (newWebMercatorTilingScheme e (opt_ellipsoid opts)),
           metadataError = None\<rparr>)"
proof -
  have general: "TileMapServiceImageryProvider e opts Unavailable =
     Normal
       \<lparr>p_url = opt_url opts,
        p_ready = True,
        p_readyPromise = Resolved,
        p_proxy = opt_proxy opts,
        p_fileExtension =
          Some (Str (case opt_fileExtension opts of None \<Rightarrow> ''png'' | Some ext \<Rightarrow> ext)),
        p_tileWidth = Some (case opt_tileWidth opts of None \<Rightarrow> Num 256 | Some w \<Rightarrow> w),
        p_tileHeight = Some (case opt_tileHeight opts of None \<Rightarrow> Num 256 | Some h \<Rightarrow> h),
        p_minimumLevel = Some (case opt_minimumLevel opts of None \<Rightarrow> Num 0 | Some m \<Rightarrow> m),
        p_maximumLevel = opt_maximumLevel opts,
        p_rectangle =
          Some (case opt_rectangle opts of
                  None \<Rightarrow>
                    scheme_rectangle
                      (case opt_tilingScheme opts of
                         None \<Rightarrow> newWebMercatorTilingScheme e (opt_ellipsoid opts)
                       | Some scheme \<Rightarrow> scheme)
                | Some rect \<Rightarrow> rect),
        p_tilingScheme =
          Some (case opt_tilingScheme opts of
                  None \<Rightarrow> newWebMercatorTilingScheme e (opt_ellipsoid opts)
                | Some scheme \<Rightarrow> scheme),
        metadataError = None\<rparr>"
    by (simp add: TileMapServiceImageryProvider_def requestMetadata_def metadataFailure_def
        initial_def defaultValue_def resolve_def Let_def)
  show ?thesis
    unfolding general by simp
qed

text \<open>
  Two instances of C4: no override at all, and a caller who supplies the extension, the
  minimum level 5 and a tiling scheme, which the provider keeps.
\<close>

theorem metadataFailure_defaults_witness:
  "TileMapServiceImageryProvider sampleEnv sampleOptions Unavailable =
     Normal
       \<lparr>p_url = ''tiles'',
        p_ready = True,
        p_readyPromise = Resolved,
        p_proxy = None,
        p_fileExtension = Some (Str ''png''),
        p_tileWidth = Some (Num 256),
        p_tileHeight = Some (Num 256),
        p_minimumLevel = Some (Num 0),
        p_maximumLevel = None,
        p_rectangle = Some \<lparr>west = Num (- 3), south = Num (- (7 / 5)), east = Num 3, north = Num (7 / 5)\<rparr>,
        p_tilingScheme = Some (sampleScheme False (7 / 5) 1),
        metadataError = None\<rparr> \<and>
   TileMapServiceImageryProvider sampleEnv
     (sampleOptions
        \<lparr>opt_fileExtension := Some ''jpg'', opt_minimumLevel := Some (Num 5),
         opt_tilingScheme := Some (sampleScheme True (3 / 2) 2)\<rparr>) Unavailable =
     Normal
       \<lparr>p_url = ''tiles'',
        p_ready = True,
        p_readyPromise = Resolved,
        p_proxy = None,
        p_fileExtension = Some (Str ''jpg''),
        p_tileWidth = Some (Num 256),
        p_tileHeight = Some (Num 256),
        p_minimumLevel = Some (Num 5),
        p_maximumLevel = None,
        p_rectangle = Some \<lparr>west = Num (- 3), south = Num (- (3 / 2)), east = Num 3, north = Num (3 / 2)\<rparr>,
        p_tilingScheme = Some (sampleScheme True (3 / 2) 2),
        metadataError = None\<rparr>"
  using metadataFailure_defaults [of sampleEnv sampleOptions]
    metadataFailure_defaults [of sampleEnv "sampleOptions
        \<lparr>opt_fileExtension := Some ''jpg'', opt_minimumLevel := Some (Num 5),
         opt_tilingScheme := Some (sampleScheme True (3 / 2) 2)\<rparr>"]
  by (simp add: sampleOptions_def sampleEnv_def newWebMercatorTilingScheme_def sampleScheme_def)

subsection \<open>C5: the relaxation of the minimum level\<close>

text \<open>
  Claim C5. For every configuration resolved from a document: with \<open>m\<close> the minimum level
  after line 165 (the override, or the order of the first tile set), \<open>swTile\<close> and \<open>neTile\<close>
  the scheme's tiles at level \<open>m\<close> of the southwest and northeast corners of the resolved
  rectangle, and \<open>tileCount = (|neTile.x - swTile.x| + 1) * (|neTile.y - swTile.y| + 1)\<close>, the
  resolved minimum level is 0 if \<open>tileCount > 4\<close> and \<open>m\<close> otherwise; so a span of exactly
  4 tiles leaves it unchanged.
\<close>

theorem minimumLevel_relaxation:
  assumes p: "p = state_of (TileMapServiceImageryProvider e opts (Loaded xml))"
    and ready: "p_ready p"
  shows "\<exists>rootElement rest first others scheme rect swTile neTile m.
     childNodes xml = rootElement # rest \<and>
     tilesetsList (iterateNodes (childNodes rootElement) unscanned) = first # others \<and>
     m = defaultValue (opt_minimumLevel opts) (parseInt (getAttribute first ''order'')) \<and>
     p_tilingScheme p = Some scheme \<and> p_rectangle p = Some rect \<and>
     positionToTileXY scheme (southwest rect) m = Some swTile \<and>
     positionToTileXY scheme (northeast rect) m = Some neTile \<and>
     tileCount swTile neTile =
       mul (add (Math_abs (sub (cart_x neTile) (cart_x swTile))) (Num 1))
           (add (Math_abs (sub (cart_y neTile) (cart_y swTile))) (Num 1)) \<and>
     p_minimumLevel p = Some (if gt (tileCount swTile neTile) (Num 4) then Num 0 else m)"
proof -
  have r: "p_ready (state_of (metadataSuccess e opts (initial opts) xml))"
    using p ready by (simp add: loaded_eq)
  have b: "\<not> p_ready (initial opts)" by simp
  from r b show ?thesis
  proof (rule metadataSuccess_ready)
    fix rootElement rest fmt first others tsn scheme r0 swTile neTile
    assume xml: "childNodes xml = rootElement # rest"
      and sets: "tilesetsList (iterateNodes (childNodes rootElement) unscanned) = first # others"
      and sw: "positionToTileXY scheme (southwest (clampRectangle r0 (scheme_rectangle scheme)))
          (defaultValue (p_minimumLevel (initial opts)) (parseInt (getAttribute first ''order''))) = Some swTile"
      and ne: "positionToTileXY scheme (northeast (clampRectangle r0 (scheme_rectangle scheme)))
          (defaultValue (p_minimumLevel (initial opts)) (parseInt (getAttribute first ''order''))) = Some neTile"
      and res: "metadataSuccess e opts (initial opts) xml =
       Normal ((levelsRead (initial opts) fmt first (last (first # others)))
         \<lparr>p_tilingScheme := Some scheme,
          p_rectangle := Some (clampRectangle r0 (scheme_rectangle scheme)),
          p_minimumLevel :=
            Some (if gt (tileCount swTile neTile) (Num 4) then Num 0
                  else defaultValue (p_minimumLevel (initial opts)) (parseInt (getAttribute first ''order''))),
          p_ready := True,
          p_readyPromise := resolve (p_readyPromise (initial opts))\<rparr>)"
    have "p_tilingScheme p = Some scheme"
      "p_rectangle p = Some (clampRectangle r0 (scheme_rectangle scheme))"
      "p_minimumLevel p = Some (if gt (tileCount swTile neTile) (Num 4) then Num 0
          else defaultValue (opt_minimumLevel opts) (parseInt (getAttribute first ''order'')))"
      using p res by (simp_all add: loaded_eq)
    with xml sets sw ne show ?thesis
      by (auto simp: tileCount_def)
  qed
qed

text \<open>
  Two instances of C5 at minimum level 2: a bounding box that spans 4 by 2 tiles, where
  the minimum level becomes 0, and one that spans 2 by 2 tiles, where it stays 2.
\<close>

theorem minimumLevel_relaxation_witness:
  "tileCount \<lparr>cart_x = Num 0, cart_y = Num 2\<rparr> \<lparr>cart_x = Num 3, cart_y = Num 1\<rparr> = Num 8 \<and>
   p_minimumLevel (state_of (TileMapServiceImageryProvider sampleEnv sampleOptions
     (Loaded (sampleDocument ''mercator'' (sampleBoundingBox ''-1'' ''-100'' ''1'' ''100'')
        [''2'', ''3'', ''4''])))) = Some (Num 0) \<and>
   tileCount \<lparr>cart_x = Num 1, cart_y = Num 2\<rparr> \<lparr>cart_x = Num 2, cart_y = Num 1\<rparr> = Num 4 \<and>
   p_minimumLevel (state_of (TileMapServiceImageryProvider sampleEnv sampleOptions
     (Loaded (sampleDocument ''mercator'' (sampleBoundingBox ''-1'' ''-1'' ''1'' ''1'')
        [''2'', ''3'', ''4''])))) = Some (Num 2)"
proof -
  let ?wide = "sampleDocument ''mercator'' (sampleBoundingBox ''-1'' ''-100'' ''1'' ''100'')
        [''2'', ''3'', ''4'']"
  let ?four = "sampleDocument ''mercator'' (sampleBoundingBox ''-1'' ''-1'' ''1'' ''1'')
        [''2'', ''3'', ''4'']"
  have first: "parseInt (getAttribute (sampleTileSet ''2'') ''order'') = Num 2"
    by (simp add: sampleTileSet_def element_def parse_defs)
  have ready: "p_ready (state_of (TileMapServiceImageryProvider sampleEnv sampleOptions (Loaded ?wide)))"
    "p_ready (state_of (TileMapServiceImageryProvider sampleEnv sampleOptions (Loaded ?four)))"
    by (simp_all only: sample_wide sample_four state_of.simps provider.simps)
  have counts:
    "tileCount \<lparr>cart_x = Num 0, cart_y = Num 2\<rparr> \<lparr>cart_x = Num 3, cart_y = Num 1\<rparr> = Num 8"
    "tileCount \<lparr>cart_x = Num 1, cart_y = Num 2\<rparr> \<lparr>cart_x = Num 2, cart_y = Num 1\<rparr> = Num 4"
    by (simp_all add: tileCount_def)
  from minimumLevel_relaxation [OF refl ready(1)] minimumLevel_relaxation [OF refl ready(2)]
  show ?thesis
    unfolding sample_wide sample_four
    by (auto simp: sampleDocument_root sampleDocument_scanned first sample_tiles counts
        southwest_def northeast_def defaultValue_def sampleOptions_def gt_def)
qed

subsection \<open>C6: the rectangle of a flipped bounding box\<close>

text \<open>
  Claim C6. \<open>flipXY\<close> is true exactly for the profiles \<open>geodetic\<close> and \<open>mercator\<close>. For
  every document with such a profile that reaches the rectangle (it has a tileformat
  node, a tileset and a bounding box), when the caller supplied no rectangle, the
  provider's rectangle is the clamped rectangle whose southwest corner is
  \<open>fromDegrees(miny, minx)\<close> and whose northeast corner is \<open>fromDegrees(maxy, maxx)\<close>:
  longitude from the y attributes and latitude from the x attributes, taken as degrees.
\<close>

theorem flipped_rectangle:
  assumes xml: "childNodes xml = rootElement # rest"
    and fmt: "format (iterateNodes (childNodes rootElement) unscanned) = Some fmt"
    and sets: "tilesetsList (iterateNodes (childNodes rootElement) unscanned) = first # others"
    and tsn: "tilesets (iterateNodes (childNodes rootElement) unscanned) = Some tsn"
    and bb: "bbox (iterateNodes (childNodes rootElement) unscanned) = Some bb"
    and profile: "getAttribute tsn ''profile'' = Str ''geodetic'' \<or>
                  getAttribute tsn ''profile'' = Str ''mercator''"
    and no_rectangle: "opt_rectangle opts = None"
    and p: "p = state_of (TileMapServiceImageryProvider e opts (Loaded xml))"
  shows "(\<forall>name. flipXY name = (name = Str ''geodetic'' \<or> name = Str ''mercator'')) \<and>
     (\<exists>scheme.
        p_tilingScheme p = Some scheme \<and>
        p_rectangle p =
          Some (clampRectangle
                  \<lparr>west = longitude (fromDegrees e (parseFloat e (getAttribute bb ''miny''))
                                       (parseFloat e (getAttribute bb ''minx''))),
                   south = latitude (fromDegrees e (parseFloat e (getAttribute bb ''miny''))
                                       (parseFloat e (getAttribute bb ''minx''))),
                   east = longitude (fromDegrees e (parseFloat e (getAttribute bb ''maxy''))
                                       (parseFloat e (getAttribute bb ''maxx''))),
                   north = latitude (fromDegrees e (parseFloat e (getAttribute bb ''maxy''))
                                       (parseFloat e (getAttribute bb ''maxx'')))\<rparr>
                  (scheme_rectangle scheme)))"
proof -
  let ?name = "getAttribute tsn ''profile''"
  have flip: "flipXY ?name"
    using profile by (simp add: flipXY_def)
  obtain scheme where scheme:
    "chooseTilingScheme e opts (p_tilingScheme (initial opts)) ?name = Some scheme"
    using profile by (cases "opt_tilingScheme opts") (auto simp: chooseTilingScheme_def)
  have r0: "rectangleHandling e (flipXY ?name) scheme (p_rectangle (initial opts))
      (bbox (iterateNodes (childNodes rootElement) unscanned)) =
      Some (rectangleFromBbox e True scheme bb)"
    using flip bb no_rectangle by (simp add: rectangleHandling_def)
  from metadataSuccess_rectangle [OF xml fmt sets tsn scheme r0]
  have "p_tilingScheme p = Some scheme"
    "p_rectangle p = Some (clampRectangle (rectangleFromBbox e True scheme bb) (scheme_rectangle scheme))"
    using p by (simp_all add: loaded_eq)
  then show ?thesis
    by (auto simp: rectangleFromBbox_def cornersToRectangle_def Let_def flipXY_def)
qed

text \<open>
  An instance of C6: the profile \<open>mercator\<close> and the bounding box 10, 20, 30, 40 give
  the corners (20, 10) and (40, 30) in degrees; in the sample environment a degree is 1/60
  of a radian.
\<close>

theorem flipped_rectangle_witness:
  "getAttribute (sampleTileSets ''mercator'' [''2'', ''3'', ''4'']) ''profile'' = Str ''mercator'' \<and>
   flipXY (Str ''mercator'') \<and>
   fromDegrees sampleEnv (Num 20) (Num 10) = \<lparr>longitude = Num (1 / 3), latitude = Num (1 / 6)\<rparr> \<and>
   fromDegrees sampleEnv (Num 40) (Num 30) = \<lparr>longitude = Num (2 / 3), latitude = Num (1 / 2)\<rparr> \<and>
   p_rectangle (state_of (TileMapServiceImageryProvider sampleEnv sampleOptions
     (Loaded (sampleDocument ''mercator'' sampleBox [''2'', ''3'', ''4''])))) =
     Some \<lparr>west = Num (1 / 3), south = Num (1 / 6), east = Num (2 / 3), north = Num (1 / 2)\<rparr>"
proof -
  let ?doc = "sampleDocument ''mercator'' sampleBox [''2'', ''3'', ''4'']"
  let ?v = "iterateNodes (childNodes (sampleRoot (sampleNodes ''mercator'' sampleBox
      [''2'', ''3'', ''4'']))) unscanned"
  have scanned: "format ?v = Some sampleTileFormat"
    "tilesetsList ?v = sampleTileSet ''2'' # [sampleTileSet ''3'', sampleTileSet ''4'']"
    "tilesets ?v = Some (sampleTileSets ''mercator'' [''2'', ''3'', ''4''])"
    "bbox ?v = Some sampleBox"
    unfolding sampleBox_def by (simp_all add: sampleDocument_scanned)
  have profile:
    "getAttribute (sampleTileSets ''mercator'' [''2'', ''3'', ''4'']) ''profile'' = Str ''geodetic'' \<or>
     getAttribute (sampleTileSets ''mercator'' [''2'', ''3'', ''4'']) ''profile'' = Str ''mercator''"
    by (simp add: sampleTileSets_profile)
  have none: "opt_rectangle sampleOptions = None"
    by (simp add: sampleOptions_def)
  have degrees:
    "fromDegrees sampleEnv (Num 20) (Num 10) = \<lparr>longitude = Num (1 / 3), latitude = Num (1 / 6)\<rparr>"
    "fromDegrees sampleEnv (Num 40) (Num 30) = \<lparr>longitude = Num (2 / 3), latitude = Num (1 / 2)\<rparr>"
    by (simp_all add: sampleEnv_def)
  from flipped_rectangle [OF sampleDocument_root scanned profile none refl, of sampleEnv]
  show ?thesis
    using degrees by (simp add: sample_mercator sampleTileSets_profile flipXY_def)
qed

subsection \<open>C7: the rectangle of a bounding box that is not flipped\<close>

text \<open>
  Claim C7. For every document whose profile does not flip the axes and that reaches the
  rectangle, when the caller supplied no rectangle, the raw points are \<open>(minx, miny)\<close> and
  \<open>(maxx, maxy)\<close>, with no swap, and the provider's rectangle is the clamped rectangle of
  their unprojection through the scheme's projection, or, for a scheme that is a
  GeographicTilingScheme, of the same points taken as degrees. The profile
  \<open>global-mercator\<close> without a scheme from the caller gives a new WebMercator scheme,
  so the first case; \<open>global-geodetic\<close> gives a new Geographic scheme, so the second.
\<close>

theorem unflipped_rectangle:
  assumes xml: "childNodes xml = rootElement # rest"
    and fmt: "format (iterateNodes (childNodes rootElement) unscanned) = Some fmt"
    and sets: "tilesetsList (iterateNodes (childNodes rootElement) unscanned) = first # others"
    and tsn: "tilesets (iterateNodes (childNodes rootElement) unscanned) = Some tsn"
    and bb: "bbox (iterateNodes (childNodes rootElement) unscanned) = Some bb"
    and no_flip: "\<not> flipXY (getAttribute tsn ''profile'')"
    and scheme: "chooseTilingScheme e opts (opt_tilingScheme opts) (getAttribute tsn ''profile'') = Some scheme"
    and no_rectangle: "opt_rectangle opts = None"
    and p: "p = state_of (TileMapServiceImageryProvider e opts (Loaded xml))"
    and sw: "swXY = \<lparr>cart_x = parseFloat e (getAttribute bb ''minx''),
                     cart_y = parseFloat e (getAttribute bb ''miny'')\<rparr>"
    and ne: "neXY = \<lparr>cart_x = parseFloat e (getAttribute bb ''maxx''),
                     cart_y = parseFloat e (getAttribute bb ''maxy'')\<rparr>"
  shows "p_tilingScheme p = Some scheme \<and>
     p_rectangle p =
       Some (clampRectangle
               (if instanceofGeographicTilingScheme scheme
                then \<lparr>west = longitude (fromDegrees e (cart_x swXY) (cart_y swXY)),
                      south = latitude (fromDegrees e (cart_x swXY) (cart_y swXY)),
                      east = longitude (fromDegrees e (cart_x neXY) (cart_y neXY)),
                      north = latitude (fromDegrees e (cart_x neXY) (cart_y neXY))\<rparr>
                else \<lparr>west = longitude (unproject scheme swXY),
                      south = latitude (unproject scheme swXY),
                      east = longitude (unproject scheme neXY),
                      north = latitude (unproject scheme neXY)\<rparr>)
               (scheme_rectangle scheme)) \<and>
     (getAttribute tsn ''profile'' = Str ''global-mercator'' \<and> opt_tilingScheme opts = None \<longrightarrow>
        scheme = newWebMercatorTilingScheme e (opt_ellipsoid opts) \<and>
        \<not> instanceofGeographicTilingScheme scheme) \<and>
     (getAttribute tsn ''profile'' = Str ''global-geodetic'' \<and> opt_tilingScheme opts = None \<longrightarrow>
        scheme = newGeographicTilingScheme e (opt_ellipsoid opts) \<and>
        instanceofGeographicTilingScheme scheme)"
proof -
  let ?name = "getAttribute tsn ''profile''"
  have scheme': "chooseTilingScheme e opts (p_tilingScheme (initial opts)) ?name = Some scheme"
    using scheme by simp
  have r0: "rectangleHandling e (flipXY ?name) scheme (p_rectangle (initial opts))
      (bbox (iterateNodes (childNodes rootElement) unscanned)) =
      Some (rectangleFromBbox e False scheme bb)"
    using no_flip bb no_rectangle by (simp add: rectangleHandling_def)
  from metadataSuccess_rectangle [OF xml fmt sets tsn scheme' r0]
  have fields: "p_tilingScheme p = Some scheme"
    "p_rectangle p = Some (clampRectangle (rectangleFromBbox e False scheme bb) (scheme_rectangle scheme))"
    using p by (simp_all add: loaded_eq)
  have rect: "rectangleFromBbox e False scheme bb =
      (if instanceofGeographicTilingScheme scheme
       then \<lparr>west = longitude (fromDegrees e (cart_x swXY) (cart_y swXY)),
             south = latitude (fromDegrees e (cart_x swXY) (cart_y swXY)),
             east = longitude (fromDegrees e (cart_x neXY) (cart_y neXY)),
             north = latitude (fromDegrees e (cart_x neXY) (cart_y neXY))\<rparr>
       else \<lparr>west = longitude (unproject scheme swXY),
             south = latitude (unproject scheme swXY),
             east = longitude (unproject scheme neXY),
             north = latitude (unproject scheme neXY)\<rparr>)"
    by (simp add: rectangleFromBbox_def cornersToRectangle_def Let_def sw ne)
  have mercator: "?name = Str ''global-mercator'' \<and> opt_tilingScheme opts = None \<longrightarrow>
      scheme = newWebMercatorTilingScheme e (opt_ellipsoid opts) \<and>
      \<not> instanceofGeographicTilingScheme scheme"
    using scheme by (auto simp: chooseTilingScheme_def newWebMercatorTilingScheme_def)
  have geodetic: "?name = Str ''global-geodetic'' \<and> opt_tilingScheme opts = None \<longrightarrow>
      scheme = newGeographicTilingScheme e (opt_ellipsoid opts) \<and>
      instanceofGeographicTilingScheme scheme"
    using scheme by (auto simp: chooseTilingScheme_def newGeographicTilingScheme_def)
  show ?thesis
    unfolding rect [symmetric] using fields mercator geodetic by blast
qed

text \<open>
  An instance of C7: the profile \<open>global-mercator\<close> and the bounding box 10, 20, 30, 40;
  the sample projection divides by 100.
\<close>

theorem unflipped_rectangle_witness:
  "\<not> flipXY (Str ''global-mercator'') \<and>
   \<not> instanceofGeographicTilingScheme (newWebMercatorTilingScheme sampleEnv None) \<and>
   unproject (newWebMercatorTilingScheme sampleEnv None) \<lparr>cart_x = Num 10, cart_y = Num 20\<rparr> =
     \<lparr>longitude = Num (1 / 10), latitude = Num (1 / 5)\<rparr> \<and>
   unproject (newWebMercatorTilingScheme sampleEnv None) \<lparr>cart_x = Num 30, cart_y = Num 40\<rparr> =
     \<lparr>longitude = Num (3 / 10), latitude = Num (2 / 5)\<rparr> \<and>
   p_rectangle (state_of (TileMapServiceImageryProvider sampleEnv sampleOptions
     (Loaded (sampleDocument ''global-mercator'' sampleBox [''0'', ''1'', ''2''])))) =
     Some \<lparr>west = Num (1 / 10), south = Num (1 / 5), east = Num (3 / 10), north = Num (2 / 5)\<rparr>"
proof -
  let ?v = "iterateNodes (childNodes (sampleRoot (sampleNodes ''global-mercator'' sampleBox
      [''0'', ''1'', ''2'']))) unscanned"
  let ?tsn = "sampleTileSets ''global-mercator'' [''0'', ''1'', ''2'']"
  have scanned: "format ?v = Some sampleTileFormat"
    "tilesetsList ?v = sampleTileSet ''0'' # [sampleTileSet ''1'', sampleTileSet ''2'']"
    "tilesets ?v = Some ?tsn"
    "bbox ?v = Some sampleBox"
    unfolding sampleBox_def by (simp_all add: sampleDocument_scanned)
  have no_flip: "\<not> flipXY (getAttribute ?tsn ''profile'')"
    by (simp add: sampleTileSets_profile flipXY_def)
  have scheme: "chooseTilingScheme sampleEnv sampleOptions (opt_tilingScheme sampleOptions)
      (getAttribute ?tsn ''profile'') = Some (newWebMercatorTilingScheme sampleEnv None)"
    by (simp add: sampleTileSets_profile chooseTilingScheme_def sampleOptions_def)
  have none: "opt_rectangle sampleOptions = None"
    by (simp add: sampleOptions_def)
  have projected:
    "\<not> instanceofGeographicTilingScheme (newWebMercatorTilingScheme sampleEnv None)"
    "unproject (newWebMercatorTilingScheme sampleEnv None) \<lparr>cart_x = Num 10, cart_y = Num 20\<rparr> =
       \<lparr>longitude = Num (1 / 10), latitude = Num (1 / 5)\<rparr>"
    "unproject (newWebMercatorTilingScheme sampleEnv None) \<lparr>cart_x = Num 30, cart_y = Num 40\<rparr> =
       \<lparr>longitude = Num (3 / 10), latitude = Num (2 / 5)\<rparr>"
    by (simp_all add: newWebMercatorTilingScheme_def sampleEnv_def sampleScheme_def)
  from unflipped_rectangle [OF sampleDocument_root scanned no_flip scheme none refl refl refl]
  show ?thesis
    using projected by (simp add: sample_global_mercator flipXY_def)
qed

subsection \<open>C8: the clamped rectangle\<close>

text \<open>
  Claim C8 says that every resolved rectangle has west \<open>\<le>\<close> east and south \<open>\<le>\<close> north. The
  code compares each edge with the scheme's and never west with east: a caller's
  rectangle from west 2 to east -2 (across the antimeridian, which Cesium's rectangles
  allow) is inside the sample Geographic scheme's, and the provider is ready with it.
\<close>

theorem rectangle_clamped_counterexample:
  "p_ready (state_of (TileMapServiceImageryProvider sampleEnv
     (sampleOptions
        \<lparr>opt_rectangle :=
           Some \<lparr>west = Num 2, south = Num (- (1 / 2)), east = Num (- 2), north = Num (1 / 2)\<rparr>\<rparr>)
     (Loaded (sampleDocument ''geodetic'' sampleBox [''0'', ''1'', ''2''])))) \<and>
   p_rectangle (state_of (TileMapServiceImageryProvider sampleEnv
     (sampleOptions
        \<lparr>opt_rectangle :=
           Some \<lparr>west = Num 2, south = Num (- (1 / 2)), east = Num (- 2), north = Num (1 / 2)\<rparr>\<rparr>)
     (Loaded (sampleDocument ''geodetic'' sampleBox [''0'', ''1'', ''2''])))) =
     Some \<lparr>west = Num 2, south = Num (- (1 / 2)), east = Num (- 2), north = Num (1 / 2)\<rparr> \<and>
   \<not> le (Num 2) (Num (- 2))"
  by (simp add: sample_antimeridian)

text \<open>
  Claim C8, amended. For every configuration resolved from a capabilities document, the
  rectangle is the caller's, or else the one lines 200-221 derive from the bounding box
  with the profile's flip and the scheme chosen, with each edge clamped on its own: west
  and south are the scheme's when they were below it, east and north the scheme's when
  they were above it, and unchanged otherwise. So west and south are not below the
  scheme's, east and north not above it, and no edge moved outwards. West \<open>\<le>\<close> east, and
  both within the scheme's west and east, hold when the rectangle before clamping had
  west \<open>\<le>\<close> east and overlapped the scheme's (itself ordered) range of longitudes; the same
  for south and north. Nothing is said of a rectangle that misses the scheme's, nor of the
  path without a document, which does not clamp.
\<close>

theorem rectangle_clamped:
  assumes p: "p = state_of (TileMapServiceImageryProvider e opts (Loaded xml))"
    and ready: "p_ready p"
  shows "\<exists>rootElement rest tsn scheme r0 r.
     childNodes xml = rootElement # rest \<and>
     tilesets (iterateNodes (childNodes rootElement) unscanned) = Some tsn \<and>
     p_tilingScheme p = Some scheme \<and>
     (\<forall>rect. opt_rectangle opts = Some rect \<longrightarrow> r0 = rect) \<and>
     (opt_rectangle opts = None \<longrightarrow>
        (\<exists>bb. bbox (iterateNodes (childNodes rootElement) unscanned) = Some bb \<and>
              r0 = rectangleFromBbox e (flipXY (getAttribute tsn ''profile'')) scheme bb)) \<and>
     p_rectangle p = Some r \<and>
     r = clampRectangle r0 (scheme_rectangle scheme) \<and>
     west r = (if lt (west r0) (west (scheme_rectangle scheme))
               then west (scheme_rectangle scheme) else west r0) \<and>
     east r = (if gt (east r0) (east (scheme_rectangle scheme))
               then east (scheme_rectangle scheme) else east r0) \<and>
     south r = (if lt (south r0) (south (scheme_rectangle scheme))
                then south (scheme_rectangle scheme) else south r0) \<and>
     north r = (if gt (north r0) (north (scheme_rectangle scheme))
                then north (scheme_rectangle scheme) else north r0) \<and>
     \<not> lt (west r) (west (scheme_rectangle scheme)) \<and>
     \<not> gt (east r) (east (scheme_rectangle scheme)) \<and>
     \<not> lt (south r) (south (scheme_rectangle scheme)) \<and>
     \<not> gt (north r) (north (scheme_rectangle scheme)) \<and>
     \<not> lt (west r) (west r0) \<and> \<not> gt (east r) (east r0) \<and>
     \<not> lt (south r) (south r0) \<and> \<not> gt (north r) (north r0) \<and>
     (le (west r0) (east r0) \<and> le (west (scheme_rectangle scheme)) (east r0) \<and>
      le (west r0) (east (scheme_rectangle scheme)) \<and>
      le (west (scheme_rectangle scheme)) (east (scheme_rectangle scheme)) \<longrightarrow>
        le (west (scheme_rectangle scheme)) (west r) \<and> le (west r) (east r) \<and>
        le (east r) (east (scheme_rectangle scheme))) \<and>
     (le (south r0) (north r0) \<and> le (south (scheme_rectangle scheme)) (north r0) \<and>
      le (south r0) (north (scheme_rectangle scheme)) \<and>
      le (south (scheme_rectangle scheme)) (north (scheme_rectangle scheme)) \<longrightarrow>
        le (south (scheme_rectangle scheme)) (south r) \<and> le (south r) (north r) \<and>
        le (north r) (north (scheme_rectangle scheme)))"
proof -
  have r: "p_ready (state_of (metadataSuccess e opts (initial opts) xml))"
    using p ready by (simp add: loaded_eq)
  have b: "\<not> p_ready (initial opts)" by simp
  from r b show ?thesis
  proof (rule metadataSuccess_ready)
    fix rootElement rest fmt first others tsn scheme r0 swTile neTile
    assume xml: "childNodes xml = rootElement # rest"
      and fmt: "format (iterateNodes (childNodes rootElement) unscanned) = Some fmt"
      and sets: "tilesetsList (iterateNodes (childNodes rootElement) unscanned) = first # others"
      and tsn: "tilesets (iterateNodes (childNodes rootElement) unscanned) = Some tsn"
      and scheme: "chooseTilingScheme e opts (p_tilingScheme (initial opts))
          (getAttribute tsn ''profile'') = Some scheme"
      and r0: "rectangleHandling e (flipXY (getAttribute tsn ''profile'')) scheme
          (p_rectangle (initial opts)) (bbox (iterateNodes (childNodes rootElement) unscanned))
          = Some r0"
    let ?s = "scheme_rectangle scheme"
    let ?r = "clampRectangle r0 ?s"
    from metadataSuccess_rectangle [OF xml fmt sets tsn scheme r0]
    have fields: "p_tilingScheme p = Some scheme" "p_rectangle p = Some ?r"
      using p by (simp_all add: loaded_eq)
    have override: "\<forall>rect. opt_rectangle opts = Some rect \<longrightarrow> r0 = rect"
      using r0 by (auto simp: rectangleHandling_def)
    have derived: "opt_rectangle opts = None \<longrightarrow>
        (\<exists>bb. bbox (iterateNodes (childNodes rootElement) unscanned) = Some bb \<and>
              r0 = rectangleFromBbox e (flipXY (getAttribute tsn ''profile'')) scheme bb)"
      using r0 by (auto simp: rectangleHandling_def)
    have edges:
      "west ?r = (if lt (west r0) (west ?s) then west ?s else west r0)"
      "east ?r = (if gt (east r0) (east ?s) then east ?s else east r0)"
      "south ?r = (if lt (south r0) (south ?s) then south ?s else south r0)"
      "north ?r = (if gt (north r0) (north ?s) then north ?s else north r0)"
      by (rule clampRectangle_edges)+
    have bounds:
      "\<not> lt (west ?r) (west ?s)" "\<not> gt (east ?r) (east ?s)"
      "\<not> lt (south ?r) (south ?s)" "\<not> gt (north ?r) (north ?s)"
      "\<not> lt (west ?r) (west r0)" "\<not> gt (east ?r) (east r0)"
      "\<not> lt (south ?r) (south r0)" "\<not> gt (north ?r) (north r0)"
      unfolding edges by (rule raised_edge lowered_edge)+
    have horizontal:
      "le (west r0) (east r0) \<and> le (west ?s) (east r0) \<and> le (west r0) (east ?s) \<and>
       le (west ?s) (east ?s) \<longrightarrow>
         le (west ?s) (west ?r) \<and> le (west ?r) (east ?r) \<and> le (east ?r) (east ?s)"
      unfolding edges using clamped_axis [of "west r0" "east r0" "west ?s" "east ?s"] by blast
    have vertical:
      "le (south r0) (north r0) \<and> le (south ?s) (north r0) \<and> le (south r0) (north ?s) \<and>
       le (south ?s) (north ?s) \<longrightarrow>
         le (south ?s) (south ?r) \<and> le (south ?r) (north ?r) \<and> le (north ?r) (north ?s)"
      unfolding edges using clamped_axis [of "south r0" "north r0" "south ?s" "north ?s"] by blast
    show ?thesis
      apply (rule exI [of _ rootElement], rule exI [of _ rest], rule exI [of _ tsn])
      apply (rule exI [of _ scheme], rule exI [of _ r0], rule exI [of _ ?r])
      apply (intro conjI refl)
      apply (fact xml tsn fields override derived edges bounds horizontal vertical)+
      done
  qed
qed

text \<open>
  Two instances of the amended C8, both with the sample WebMercator scheme, whose
  latitudes run from -7/5 to 7/5: a bounding box whose latitudes are -89 and 89 degrees
  (89/60 in the sample's radians), and a caller's rectangle with latitudes from -3/2 to
  3/2. In both the south and north edges become the scheme's and west and east stay.
\<close>

theorem rectangle_clamped_witness:
  "rectangleFromBbox sampleEnv (flipXY (Str ''mercator'')) (sampleScheme False (7 / 5) 1)
     (sampleBoundingBox ''-89'' ''-100'' ''89'' ''100'') =
     \<lparr>west = Num (- (5 / 3)), south = Num (- (89 / 60)), east = Num (5 / 3),
      north = Num (89 / 60)\<rparr> \<and>
   scheme_rectangle (sampleScheme False (7 / 5) 1) =
     \<lparr>west = Num (- 3), south = Num (- (7 / 5)), east = Num 3, north = Num (7 / 5)\<rparr> \<and>
   lt (Num (- (89 / 60))) (Num (- (7 / 5))) \<and> gt (Num (89 / 60)) (Num (7 / 5)) \<and>
   p_rectangle (state_of (TileMapServiceImageryProvider sampleEnv sampleOptions
     (Loaded (sampleDocument ''mercator'' (sampleBoundingBox ''-89'' ''-100'' ''89'' ''100'')
        [''0'', ''1'', ''2''])))) =
     Some \<lparr>west = Num (- (5 / 3)), south = Num (- (7 / 5)), east = Num (5 / 3),
           north = Num (7 / 5)\<rparr> \<and>
   p_rectangle (state_of (TileMapServiceImageryProvider sampleEnv
     (sampleOptions
        \<lparr>opt_fileExtension := Some ''png'', opt_minimumLevel := Some (Num 2),
         opt_maximumLevel := Some (Num 5),
         opt_rectangle :=
           Some \<lparr>west = Num (- 3), south = Num (- (3 / 2)), east = Num 3, north = Num (3 / 2)\<rparr>\<rparr>)
     (Loaded (sampleDocument ''mercator'' sampleBox [''0'', ''1'', ''2''])))) =
     Some \<lparr>west = Num (- 3), south = Num (- (7 / 5)), east = Num 3, north = Num (7 / 5)\<rparr>"
proof -
  let ?opts = "sampleOptions
        \<lparr>opt_fileExtension := Some ''png'', opt_minimumLevel := Some (Num 2),
         opt_maximumLevel := Some (Num 5),
         opt_rectangle :=
           Some \<lparr>west = Num (- 3), south = Num (- (3 / 2)), east = Num 3, north = Num (3 / 2)\<rparr>\<rparr>"
  let ?doc = "sampleDocument ''mercator'' sampleBox [''0'', ''1'', ''2'']"
  let ?tall = "sampleDocument ''mercator'' (sampleBoundingBox ''-89'' ''-100'' ''89'' ''100'')
        [''0'', ''1'', ''2'']"
  have ready: "p_ready (state_of (TileMapServiceImageryProvider sampleEnv ?opts (Loaded ?doc)))"
    "p_ready (state_of (TileMapServiceImageryProvider sampleEnv sampleOptions (Loaded ?tall)))"
    by (simp_all only: sample_overridden sample_tall state_of.simps provider.simps)
  have computed:
    "rectangleFromBbox sampleEnv (flipXY (Str ''mercator'')) (sampleScheme False (7 / 5) 1)
       (sampleBoundingBox ''-89'' ''-100'' ''89'' ''100'') =
       \<lparr>west = Num (- (5 / 3)), south = Num (- (89 / 60)), east = Num (5 / 3),
        north = Num (89 / 60)\<rparr>"
    "scheme_rectangle (sampleScheme False (7 / 5) 1) =
       \<lparr>west = Num (- 3), south = Num (- (7 / 5)), east = Num 3, north = Num (7 / 5)\<rparr>"
    "lt (Num (- (89 / 60))) (Num (- (7 / 5)))" "gt (Num (89 / 60)) (Num (7 / 5))"
    "p_rectangle (state_of (TileMapServiceImageryProvider sampleEnv sampleOptions (Loaded ?tall))) =
       Some \<lparr>west = Num (- (5 / 3)), south = Num (- (7 / 5)), east = Num (5 / 3),
             north = Num (7 / 5)\<rparr>"
    "p_rectangle (state_of (TileMapServiceImageryProvider sampleEnv ?opts (Loaded ?doc))) =
       Some \<lparr>west = Num (- 3), south = Num (- (7 / 5)), east = Num 3, north = Num (7 / 5)\<rparr>"
    by (simp_all add: sample_overridden sample_tall sample_tall_box sampleScheme_rectangle
        flipXY_def gt_def)
  from rectangle_clamped [OF refl ready(1)] rectangle_clamped [OF refl ready(2)]
  show ?thesis
    using computed by blast
qed

subsection \<open>C9: a document without a tileformat node\<close>

text \<open>
  Claim C9. For every capabilities document that is present and parseable but has no
  tileformat node (no child of its root element has a name matching \<^verbatim>\<open>/tileformat/i\<close>),
  resolution fails and the provider does not become ready: \<^verbatim>\<open>format\<close> is still
  \<^verbatim>\<open>undefined\<close> at line 162, \<^verbatim>\<open>format.getAttribute('extension')\<close> is evaluated as an
  argument of \<^verbatim>\<open>defaultValue\<close> and throws a TypeError before any field is written. This
  holds for every set of overrides, so in particular when the overrides do not supply
  every scalar field: the provider keeps the fields of the constructor, not ready, its
  ready promise pending.
\<close>

theorem missing_tileformat_throws:
  assumes "\<forall>rootElement rest. childNodes xml = rootElement # rest \<longrightarrow>
             (\<forall>n \<in> set (childNodes rootElement). \<not> test tileFormatRegex (nodeName n))"
  shows "metadataSuccess e opts that xml = Throw TypeError that \<and>
         TileMapServiceImageryProvider e opts (Loaded xml) = Throw TypeError (initial opts) \<and>
         \<not> p_ready (initial opts) \<and> p_readyPromise (initial opts) = Pending"
proof -
  have throws: "metadataSuccess e opts s xml = Throw TypeError s" for s
  proof (cases "childNodes xml")
    case Nil
    then show ?thesis by (rule metadataSuccess_no_root)
  next
    case (Cons rootElement rest)
    with assms have "\<forall>n \<in> set (childNodes rootElement). \<not> test tileFormatRegex (nodeName n)"
      by blast
    then have "format (iterateNodes (childNodes rootElement) unscanned) = None"
      using iterateNodes_format_unmatched [of "childNodes rootElement" unscanned]
      by (simp add: unscanned_def)
    with Cons show ?thesis by (rule metadataSuccess_no_format)
  qed
  then show ?thesis
    by (simp add: loaded_eq)
qed

text \<open>
  An instance of C9: a document with a bounding box and tile sets but no tile format, and
  a caller who supplies every scalar field.
\<close>

theorem missing_tileformat_throws_witness:
  "TileMapServiceImageryProvider sampleEnv
     (sampleOptions\<lparr>opt_fileExtension := Some ''png'', opt_tileWidth := Some (Num 256),
        opt_tileHeight := Some (Num 256), opt_minimumLevel := Some (Num 0),
        opt_maximumLevel := Some (Num 4)\<rparr>)
     (Loaded (sampleTileMap [sampleBox, sampleTileSets ''mercator'' [''0'', ''1'']]))
   = Throw TypeError
      (initial (sampleOptions\<lparr>opt_fileExtension := Some ''png'', opt_tileWidth := Some (Num 256),
        opt_tileHeight := Some (Num 256), opt_minimumLevel := Some (Num 0),
        opt_maximumLevel := Some (Num 4)\<rparr>))"
proof -
  have unmatched:
    "\<forall>rootElement rest.
       childNodes (sampleTileMap [sampleBox, sampleTileSets ''mercator'' [''0'', ''1'']])
         = rootElement # rest \<longrightarrow>
       (\<forall>n \<in> set (childNodes rootElement). \<not> test tileFormatRegex (nodeName n))"
    by (auto simp: sample_defs regex_defs)
  from missing_tileformat_throws [OF unmatched] show ?thesis
    by simp
qed

subsection \<open>C10: a tiling scheme from the caller\<close>

text \<open>
  Claim C10 says that with a tiling scheme from the caller resolution succeeds for every
  document, whatever its profile. The profile cannot make it fail, but the rest of the
  document can: with the caller's scheme and the profile \<open>unknown-value\<close>, a document
  without a tileformat node still throws the TypeError of line 162.
\<close>

theorem scheme_override_counterexample:
  "opt_tilingScheme (sampleOptions\<lparr>opt_tilingScheme := Some (sampleScheme True (3 / 2) 2)\<rparr>) =
     Some (sampleScheme True (3 / 2) 2) \<and>
   TileMapServiceImageryProvider sampleEnv
     (sampleOptions\<lparr>opt_tilingScheme := Some (sampleScheme True (3 / 2) 2)\<rparr>)
     (Loaded (sampleTileMap [sampleBox, sampleTileSets ''unknown-value'' [''0'', ''1'']])) =
     Throw TypeError (initial (sampleOptions\<lparr>opt_tilingScheme := Some (sampleScheme True (3 / 2) 2)\<rparr>)) \<and>
   \<not> p_ready (initial (sampleOptions\<lparr>opt_tilingScheme := Some (sampleScheme True (3 / 2) 2)\<rparr>))"
  by (simp add: sample_without_format)

text \<open>
  Claim C10, amended. For every capabilities document, if the caller supplied a tiling
  scheme, the branch of the unsupported profile is never reached, for any profile string
  whatsoever: the scheme chosen is the caller's, the ready promise is never rejected and
  no error is recorded. \<open>flipXY\<close> is true only for \<open>geodetic\<close> and \<open>mercator\<close> and false for
  every other profile value. Resolution then succeeds, with the caller's scheme, whenever
  the document has a tileformat node and a tileset, there is a rectangle (the caller's or
  a bounding box), and the scheme returns a tile for both corners of the clamped
  rectangle.
\<close>

theorem scheme_override_any_profile:
  assumes override: "opt_tilingScheme opts = Some ts"
    and p: "p = state_of (TileMapServiceImageryProvider e opts (Loaded xml))"
  shows "(\<forall>name. chooseTilingScheme e opts (opt_tilingScheme opts) name = Some ts) \<and>
     (\<forall>name. flipXY name = (name = Str ''geodetic'' \<or> name = Str ''mercator'')) \<and>
     (\<forall>err. p_readyPromise p \<noteq> Rejected err) \<and>
     metadataError p = None \<and>
     (\<forall>rootElement rest fmt first others tsn r0 swTile neTile.
        childNodes xml = rootElement # rest \<and>
        format (iterateNodes (childNodes rootElement) unscanned) = Some fmt \<and>
        tilesetsList (iterateNodes (childNodes rootElement) unscanned) = first # others \<and>
        tilesets (iterateNodes (childNodes rootElement) unscanned) = Some tsn \<and>
        rectangleHandling e (flipXY (getAttribute tsn ''profile'')) ts (opt_rectangle opts)
          (bbox (iterateNodes (childNodes rootElement) unscanned)) = Some r0 \<and>
        positionToTileXY ts (southwest (clampRectangle r0 (scheme_rectangle ts)))
          (defaultValue (opt_minimumLevel opts) (parseInt (getAttribute first ''order'')))
          = Some swTile \<and>
        positionToTileXY ts (northeast (clampRectangle r0 (scheme_rectangle ts)))
          (defaultValue (opt_minimumLevel opts) (parseInt (getAttribute first ''order'')))
          = Some neTile \<longrightarrow>
        TileMapServiceImageryProvider e opts (Loaded xml) = Normal p \<and>
        p_ready p \<and> p_readyPromise p = Resolved \<and> p_tilingScheme p = Some ts)"
proof -
  have chooses: "\<forall>name. chooseTilingScheme e opts (opt_tilingScheme opts) name = Some ts"
    using override by (simp add: chooseTilingScheme_def)
  have flips: "\<forall>name. flipXY name = (name = Str ''geodetic'' \<or> name = Str ''mercator'')"
    by (simp add: flipXY_def)
  have scheme: "p_tilingScheme (initial opts) = Some ts"
    using override by simp
  from metadataSuccess_with_scheme [OF scheme, of e opts xml]
  have outcome: "metadataError p = None"
    "p_readyPromise p = Pending \<or> p_readyPromise p = Resolved"
    using p by (simp_all add: loaded_eq resolve_def)
  have never: "\<forall>err. p_readyPromise p \<noteq> Rejected err"
    using outcome(2) by auto
  have succeeds: "\<forall>rootElement rest fmt first others tsn r0 swTile neTile.
        childNodes xml = rootElement # rest \<and>
        format (iterateNodes (childNodes rootElement) unscanned) = Some fmt \<and>
        tilesetsList (iterateNodes (childNodes rootElement) unscanned) = first # others \<and>
        tilesets (iterateNodes (childNodes rootElement) unscanned) = Some tsn \<and>
        rectangleHandling e (flipXY (getAttribute tsn ''profile'')) ts (opt_rectangle opts)
          (bbox (iterateNodes (childNodes rootElement) unscanned)) = Some r0 \<and>
        positionToTileXY ts (southwest (clampRectangle r0 (scheme_rectangle ts)))
          (defaultValue (opt_minimumLevel opts) (parseInt (getAttribute first ''order'')))
          = Some swTile \<and>
        positionToTileXY ts (northeast (clampRectangle r0 (scheme_rectangle ts)))
          (defaultValue (opt_minimumLevel opts) (parseInt (getAttribute first ''order'')))
          = Some neTile \<longrightarrow>
        TileMapServiceImageryProvider e opts (Loaded xml) = Normal p \<and>
        p_ready p \<and> p_readyPromise p = Resolved \<and> p_tilingScheme p = Some ts"
  proof (intro allI impI)
    fix rootElement rest fmt first others tsn r0 swTile neTile
    assume a: "childNodes xml = rootElement # rest \<and>
        format (iterateNodes (childNodes rootElement) unscanned) = Some fmt \<and>
        tilesetsList (iterateNodes (childNodes rootElement) unscanned) = first # others \<and>
        tilesets (iterateNodes (childNodes rootElement) unscanned) = Some tsn \<and>
        rectangleHandling e (flipXY (getAttribute tsn ''profile'')) ts (opt_rectangle opts)
          (bbox (iterateNodes (childNodes rootElement) unscanned)) = Some r0 \<and>
        positionToTileXY ts (southwest (clampRectangle r0 (scheme_rectangle ts)))
          (defaultValue (opt_minimumLevel opts) (parseInt (getAttribute first ''order'')))
          = Some swTile \<and>
        positionToTileXY ts (northeast (clampRectangle r0 (scheme_rectangle ts)))
          (defaultValue (opt_minimumLevel opts) (parseInt (getAttribute first ''order'')))
          = Some neTile"
    have chosen: "chooseTilingScheme e opts (p_tilingScheme (initial opts))
        (getAttribute tsn ''profile'') = Some ts"
      using override by (simp add: chooseTilingScheme_def)
    have r0: "rectangleHandling e (flipXY (getAttribute tsn ''profile'')) ts
        (p_rectangle (initial opts)) (bbox (iterateNodes (childNodes rootElement) unscanned))
        = Some r0"
      using a by simp
    from a have xml: "childNodes xml = rootElement # rest"
      and fmt: "format (iterateNodes (childNodes rootElement) unscanned) = Some fmt"
      and sets: "tilesetsList (iterateNodes (childNodes rootElement) unscanned) = first # others"
      and tsn: "tilesets (iterateNodes (childNodes rootElement) unscanned) = Some tsn"
      by simp_all
    show "TileMapServiceImageryProvider e opts (Loaded xml) = Normal p \<and>
          p_ready p \<and> p_readyPromise p = Resolved \<and> p_tilingScheme p = Some ts"
      using metadataSuccess_tiles [OF xml fmt sets tsn chosen r0 refl refl] a p
      by (simp add: loaded_eq levelsRead_def resolve_def)
  qed
  from chooses flips never outcome(1) succeeds show ?thesis
    by (intro conjI)
qed

text \<open>
  An instance of the amended C10: the profile \<open>unknown-value\<close> and the sample Geographic
  scheme as the caller's.
\<close>

theorem scheme_override_any_profile_witness:
  "chooseTilingScheme sampleEnv
     (sampleOptions\<lparr>opt_tilingScheme := Some (sampleScheme True (3 / 2) 2)\<rparr>)
     (Some (sampleScheme True (3 / 2) 2)) (Str ''unknown-value'') =
     Some (sampleScheme True (3 / 2) 2) \<and>
   \<not> flipXY (Str ''unknown-value'') \<and>
   p_ready (state_of (TileMapServiceImageryProvider sampleEnv
     (sampleOptions\<lparr>opt_tilingScheme := Some (sampleScheme True (3 / 2) 2)\<rparr>)
     (Loaded (sampleDocument ''unknown-value'' sampleBox [''0'', ''1'', ''2''])))) \<and>
   p_readyPromise (state_of (TileMapServiceImageryProvider sampleEnv
     (sampleOptions\<lparr>opt_tilingScheme := Some (sampleScheme True (3 / 2) 2)\<rparr>)
     (Loaded (sampleDocument ''unknown-value'' sampleBox [''0'', ''1'', ''2''])))) = Resolved \<and>
   p_tilingScheme (state_of (TileMapServiceImageryProvider sampleEnv
     (sampleOptions\<lparr>opt_tilingScheme := Some (sampleScheme True (3 / 2) 2)\<rparr>)
     (Loaded (sampleDocument ''unknown-value'' sampleBox [''0'', ''1'', ''2''])))) =
     Some (sampleScheme True (3 / 2) 2)"
proof -
  have override:
    "opt_tilingScheme (sampleOptions\<lparr>opt_tilingScheme := Some (sampleScheme True (3 / 2) 2)\<rparr>) =
     Some (sampleScheme True (3 / 2) 2)"
    by simp
  from scheme_override_any_profile [OF override refl, of sampleEnv
      "sampleDocument ''unknown-value'' sampleBox [''0'', ''1'', ''2'']"]
  have "chooseTilingScheme sampleEnv
     (sampleOptions\<lparr>opt_tilingScheme := Some (sampleScheme True (3 / 2) 2)\<rparr>)
     (Some (sampleScheme True (3 / 2) 2)) (Str ''unknown-value'') =
     Some (sampleScheme True (3 / 2) 2)"
    and "\<not> flipXY (Str ''unknown-value'')"
    by simp_all
  then show ?thesis
    by (simp only: sample_own_scheme state_of.simps provider.simps simp_thms)
qed

end
